theory Spec2Isabelle
  imports Main "HOL-Library.Sublist"
begin

section \<open>Go's \<open>strings\<close> package, as far as the resource uses it\<close>

text \<open>
  A Go string is a sequence of bytes; a \<^typ>\<open>string\<close> is a list of bytes too.
  Every separator and cutset the resource passes is a single ASCII byte (an
  opening or closing square bracket, a comma, a double quote \<open>CHR 0x22\<close>, a
  colon), and in UTF-8 no byte of a longer rune equals an ASCII byte, so the
  functions work on bytes as the library's do on runes.
\<close>

text \<open>\<open>strings.HasPrefix(s, prefix)\<close>:
  \<open>len(s) >= len(prefix) && s[:len(prefix)] == prefix\<close>.\<close>

definition HasPrefix :: "string \<Rightarrow> string \<Rightarrow> bool" where
  "HasPrefix s p \<longleftrightarrow> length p \<le> length s \<and> take (length p) s = p"

text \<open>\<open>strings.HasSuffix(s, suffix)\<close>:
  \<open>len(s) >= len(suffix) && s[len(s)-len(suffix):] == suffix\<close>.\<close>

definition HasSuffix :: "string \<Rightarrow> string \<Rightarrow> bool" where
  "HasSuffix s suf \<longleftrightarrow> length suf \<le> length s \<and> drop (length s - length suf) s = suf"

text \<open>\<open>strings.TrimLeft(s, cutset)\<close>: drop bytes from the front while they are in
  the cutset.\<close>

fun TrimLeft :: "string \<Rightarrow> string \<Rightarrow> string" where
  "TrimLeft [] cutset = []"
| "TrimLeft (c # s) cutset = (if c \<in> set cutset then TrimLeft s cutset else c # s)"

text \<open>\<open>strings.TrimRight(s, cutset)\<close>: the same from the back.\<close>

definition TrimRight :: "string \<Rightarrow> string \<Rightarrow> string" where
  "TrimRight s cutset = rev (TrimLeft (rev s) cutset)"

text \<open>\<open>strings.Trim(s, cutset)\<close>: both ends.\<close>

definition Trim :: "string \<Rightarrow> string \<Rightarrow> string" where
  "Trim s cutset = TrimRight (TrimLeft s cutset) cutset"

text \<open>\<open>strings.Split(s, sep)\<close> for a one-byte separator: the pieces between the
  separators, one more piece than there are separators; \<open>Split("", ",")\<close> is the
  one-element list holding the empty string.\<close>

fun Split :: "string \<Rightarrow> char \<Rightarrow> string list" where
  "Split [] sep = [[]]"
| "Split (c # s) sep =
     (if c = sep then [] # Split s sep
      else (case Split s sep of [] \<Rightarrow> [[c]] | p # ps \<Rightarrow> (c # p) # ps))"

text \<open>\<open>strings.Join(elems, sep)\<close> for a one-byte separator; the resource does not
  call it, it states what \<open>Split\<close> returns.\<close>

fun Join :: "string list \<Rightarrow> char \<Rightarrow> string" where
  "Join [] sep = []"
| "Join [p] sep = p"
| "Join (p # q # ps) sep = p @ sep # Join (q # ps) sep"

text \<open>\<open>strings.Contains(s, substr)\<close>: \<open>substr\<close> occurs at some offset of \<open>s\<close>.\<close>

fun Contains :: "string \<Rightarrow> string \<Rightarrow> bool" where
  "Contains [] sub = (sub = [])"
| "Contains (c # s) sub = (HasPrefix (c # s) sub \<or> Contains s sub)"

text \<open>\<open>strconv.ParseBool(str)\<close>: the value, and whether an error is returned.\<close>

definition ParseBool :: "string \<Rightarrow> bool \<times> bool" where
  "ParseBool str =
     (if str \<in> {''1'', ''t'', ''T'', ''TRUE'', ''true'', ''True''} then (True, False)
      else if str \<in> {''0'', ''f'', ''F'', ''FALSE'', ''false'', ''False''} then (False, False)
      else (False, True))"

section \<open>Deployment filter\<close>

text \<open>
  \<open>models.ServiceDeployment\<close>, with the three fields the resource reads:
  \<open>CatalogCRN\<close>, \<open>Metadata.RCCompatible\<close> and \<open>Metadata.Deployment.Location\<close>.
\<close>

record ServiceDeployment =
  CatalogCRN :: string
  RCCompatible :: bool
  Location :: string

text \<open>
  The loop of \<open>filterDeployments\<close>: \<open>supportedDeployments\<close> grows by \<open>append\<close>,
  \<open>supportedLocations\<close> is a \<open>map[string]bool\<close>.
\<close>

fun filterLoop ::
  "ServiceDeployment list \<Rightarrow> string \<Rightarrow> ServiceDeployment list \<times> (string \<rightharpoonup> bool)
     \<Rightarrow> ServiceDeployment list \<times> (string \<rightharpoonup> bool)" where
  "filterLoop [] location acc = acc"
| "filterLoop (d # ds) location (supportedDeployments, supportedLocations) =
     (if RCCompatible d then
        (let deploymentLocation = Location d;
             supportedLocations' = supportedLocations(deploymentLocation \<mapsto> True)
         in if deploymentLocation = location
            then filterLoop ds location (supportedDeployments @ [d], supportedLocations')
            else filterLoop ds location (supportedDeployments, supportedLocations'))
      else filterLoop ds location (supportedDeployments, supportedLocations))"

definition filterDeployments ::
  "ServiceDeployment list \<Rightarrow> string \<Rightarrow> ServiceDeployment list \<times> (string \<rightharpoonup> bool)" where
  "filterDeployments deployments location = filterLoop deployments location ([], Map.empty)"

section \<open>Parameter coercion\<close>

text \<open>
  A value of the \<open>map[string]interface{}\<close> payload: a boolean, a list of
  strings or a string, as the coercion produces them; \<open>PJSON\<close> stands for
  any other JSON value the remote service holds in an instance's parameters
  (by its text).
\<close>

datatype param = PBool bool | PList "string list" | PStr string | PJSON string

text \<open>The body of the loop over the \<open>parameters\<close> map, for one value \<open>v\<close>.\<close>

definition coerceValue :: "string \<Rightarrow> param" where
  "coerceValue v =
     (if v = ''true'' \<or> v = ''false'' then PBool (fst (ParseBool v))
      else if HasPrefix v ''['' \<and> HasSuffix v '']'' then
        (let arrayString = v;
             trimLeft = TrimLeft arrayString ''['';
             trimRight = TrimRight trimLeft '']'';
             array = Split trimRight (CHR '','')
         in PList (foldl (\<lambda>result a. result @ [Trim a [CHR 0x22]]) [] array))
      else PStr v)"

text \<open>
  \<open>for k, v := range temp { ... params[k] = ... }\<close>. A Go map holds each key
  once and is ranged over in an unspecified order: the entries are a list of
  pairs, in the order of the iteration.
\<close>

fun coerceParameters :: "(string \<rightharpoonup> param) \<Rightarrow> (string \<times> string) list \<Rightarrow> (string \<rightharpoonup> param)" where
  "coerceParameters params [] = params"
| "coerceParameters params ((k, v) # temp) = coerceParameters (params(k \<mapsto> coerceValue v)) temp"

section \<open>Remote data and the provider's state\<close>

text \<open>The status strings of the resource controller, as the source names them.\<close>

definition rsInstanceSuccessStatus :: string where "rsInstanceSuccessStatus = ''active''"
definition rsInstanceProgressStatus :: string where "rsInstanceProgressStatus = ''in progress''"
definition rsInstanceProvisioningStatus :: string where "rsInstanceProvisioningStatus = ''provisioning''"
definition rsInstanceInactiveStatus :: string where "rsInstanceInactiveStatus = ''inactive''"
definition rsInstanceFailStatus :: string where "rsInstanceFailStatus = ''failed''"
definition rsInstanceRemovedStatus :: string where "rsInstanceRemovedStatus = ''removed''"
definition rsInstanceReclamation :: string where "rsInstanceReclamation = ''pending_reclamation''"

text \<open>
  \<open>rc.PlanHistoryItem\<close> and \<open>rc.ResourceInstance\<close>. A field of pointer type is an
  option, \<open>None\<close> for \<open>nil\<close>; a date (\<open>*strfmt.DateTime\<close>) is held by the text its
  \<open>String()\<close> gives. \<open>Parameters\<close> is a \<open>map[string]interface{}\<close>: reading a nil
  map gives what reading an empty one gives, so both are the empty map here.
  \<open>Extensions\<close> and \<open>LastOperation\<close> are left out: Read hands them to the helper
  \<open>Flatten\<close> of another file and does nothing else with them.
\<close>

record PlanHistoryItem =
  ph_ResourcePlanID :: "string option"
  StartDate :: "string option"

record ResourceInstance =
  ID :: "string option"
  GUID :: "string option"
  CRN :: "string option"
  Name :: "string option"
  State :: "string option"
  ResourceGroupID :: "string option"
  ResourceGroupCRN :: "string option"
  ResourceID :: "string option"
  ResourcePlanID :: "string option"
  TargetCRN :: "string option"
  DashboardURL :: "string option"
  AccountID :: "string option"
  Parameters :: "string \<rightharpoonup> param"
  CreatedAt :: "string option"
  CreatedBy :: "string option"
  UpdatedAt :: "string option"
  UpdatedBy :: "string option"
  DeletedAt :: "string option"
  DeletedBy :: "string option"
  ScheduledReclaimAt :: "string option"
  ScheduledReclaimBy :: "string option"
  RestoredAt :: "string option"
  RestoredBy :: "string option"
  PlanHistory :: "PlanHistoryItem list option"

text \<open>
  What a call of \<open>GetResourceInstance\<close> returns: the instance (a pointer), the
  status code of the response when there is a response, and the error when
  there is one.
\<close>

type_synonym fetch = "ResourceInstance option \<times> int option \<times> string option"

text \<open>A run-time panic of Go: the process stops, nothing is returned.\<close>

datatype panic = NilDereference | IndexOutOfRange

text \<open>
  The errors the resource returns, one constructor for each \<open>fmt.Errorf\<close> of the
  source (its arguments are the values formatted into the message; the
  locations of \<open>ErrNoDeploymentAtLocation\<close> are the keys of its map), \<open>Passed\<close>
  for an error of a collaborator returned as it came, and the two errors of
  the poll engine.
\<close>

datatype error =
    Passed string
  | ErrRetrievingServiceOffering string
  | ErrCannotBeProvisioned string
  | ErrCannotCreateInstance string
  | ErrRetrievingPlan string
  | ErrRetrievingDeployment string string
  | ErrNoDeploymentFound string
  | ErrNoDeploymentAtLocation string string "string \<rightharpoonup> bool"
  | ErrCreating string "int option"
  | ErrWaitingCreate string error
  | ErrRetrievingInstance string "int option"
  | ErrGettingInstance string "int option"
  | ErrUpdating string "int option"
  | ErrWaitingUpdate string error
  | ErrDeleting string "int option"
  | ErrWaitingDelete string error
  | ErrExistsGetting string "int option"
  | ErrDoesNotExistAnymore string string
  | ErrGetFailed string "int option" string
  | ErrInstanceFailed string
  | ErrInstanceFailedToDelete string
  | TimeoutError
  | UnexpectedStateError string

text \<open>The request options of the three changing calls.\<close>

record CreateResourceInstanceOptions =
  co_Name :: string
  co_Target :: string
  co_ResourceGroup :: string
  co_ResourcePlanID :: string
  co_Parameters :: "string \<rightharpoonup> param"

record UpdateResourceInstanceOptions =
  uo_ID :: string
  uo_Name :: "string option"
  uo_ResourcePlanID :: "string option"
  uo_Parameters :: "(string \<rightharpoonup> param) option"

record DeleteResourceInstanceOptions =
  do_ID :: string
  Recursive :: bool

text \<open>
  \<open>models.Service\<close>: \<open>Metadata\<close> is an interface value, on which Create asserts
  the type \<open>*models.ServiceResourceMetadata\<close> and reads \<open>Service.RCProvisionable\<close>.
\<close>

datatype ServiceMetadata = ServiceResourceMetadata bool | OtherMetadata

record Service =
  ServiceName :: string
  Metadata :: ServiceMetadata

text \<open>
  The requests sent to the resource controller and to the tag service, in
  the order they are sent.
\<close>

datatype call =
    CallCreate CreateResourceInstanceOptions
  | CallGet string
  | CallUpdate UpdateResourceInstanceOptions
  | CallDelete DeleteResourceInstanceOptions
  | CallUpdateTags string

record session =
  log :: "call list"
  gets :: nat

text \<open>
  \<open>meta\<close>: the collaborators, each by what it answers. The answer of
  \<open>GetResourceInstance\<close> depends on how many fetches came before it, since the
  remote instance changes while the resource polls. An error of the tag
  service is logged and nothing else, so its answers decide nothing here.
\<close>

record meta =
  ResourceControllerV2API :: "string option"
  ResourceCatalogAPI :: "string option"
  FindByName :: "string \<Rightarrow> Service list \<times> string option"
  GetServicePlanID :: "Service \<Rightarrow> string \<Rightarrow> string \<times> string option"
  ListDeployments :: "string \<Rightarrow> ServiceDeployment list \<times> string option"
  GetServiceName :: "string \<Rightarrow> string \<times> string option"
  GetServicePlanName :: "string \<Rightarrow> string \<times> string option"
  defaultResourceGroup :: "string \<times> string option"
  getBaseController :: "string \<times> string option"
  CreateResourceInstance_answer ::
    "CreateResourceInstanceOptions \<Rightarrow> ResourceInstance option \<times> int option \<times> string option"
  GetResourceInstance_answer :: "nat \<Rightarrow> string \<Rightarrow> fetch"
  UpdateResourceInstance_answer ::
    "UpdateResourceInstanceOptions \<Rightarrow> ResourceInstance option \<times> int option \<times> string option"
  DeleteResourceInstance_answer :: "DeleteResourceInstanceOptions \<Rightarrow> int option \<times> string option"
  GetTagsUsingCRN :: "string \<Rightarrow> string list \<times> string option"
  UpdateTagsUsingCRN :: "string \<Rightarrow> string option"
  IC_ENV_TAGS :: string

definition GetResourceInstance :: "meta \<Rightarrow> string \<Rightarrow> session \<Rightarrow> fetch \<times> session" where
  "GetResourceInstance m instanceID s =
     (GetResourceInstance_answer m (gets s) instanceID,
      s\<lparr>log := log s @ [CallGet instanceID], gets := Suc (gets s)\<rparr>)"

definition DeleteResourceInstance ::
  "meta \<Rightarrow> DeleteResourceInstanceOptions \<Rightarrow> session \<Rightarrow> (int option \<times> string option) \<times> session" where
  "DeleteResourceInstance m opts s =
     (DeleteResourceInstance_answer m opts, s\<lparr>log := log s @ [CallDelete opts]\<rparr>)"

text \<open>
  \<open>schema.ResourceData\<close>: the identifier, the configured values by field
  (\<open>d.Get(key).(string)\<close> is \<open>strs d key\<close>, the empty string for a field that is
  not set), the \<open>parameters\<close> map by its entries (the values of a \<open>TypeMap\<close> are
  strings), whether \<open>tags\<close> is set, which fields changed (\<open>d.HasChange\<close>), the
  values \<open>d.Set\<close> wrote (kept apart from the configured ones: no callback reads
  a field after Read wrote it), and for each operation the number of refreshes
  its timeout leaves time for.
\<close>

datatype attr = AStr "string option" | AString string | AParam param | ATags "string list"
  | APlanHistory "(string option \<times> string) list"

record ResourceData =
  Id :: string
  strs :: "string \<Rightarrow> string"
  parameters :: "(string \<times> string) list"
  tagsSet :: bool
  HasChange :: "string \<Rightarrow> bool"
  attrs :: "string \<rightharpoonup> attr"
  TimeoutCreate :: nat
  TimeoutUpdate :: nat
  TimeoutDelete :: nat

section \<open>The poll engine\<close>

text \<open>
  \<open>resource.StateChangeConf\<close> of the plugin SDK. \<open>Refresh\<close> is a closure over the
  client: here it takes the session and returns it. \<open>Timeout\<close> counts the
  refreshes that fit before the deadline; \<open>Delay\<close> and \<open>MinTimeout\<close> are seconds.
\<close>

type_synonym refreshed = "panic + (ResourceInstance option \<times> string \<times> error option)"

record StateChangeConf =
  Pending :: "string list"
  Target :: "string list"
  Refresh :: "session \<Rightarrow> refreshed \<times> session"
  Timeout :: nat
  Delay :: nat
  MinTimeout :: nat

text \<open>
  Modelled from the spec: \<open>WaitForState\<close> is a function of the plugin SDK, which
  is not among the sources. The spec (4.3): the fetch is invoked repeatedly;
  an error of the fetch is returned; a state in the target set returns the
  instance; a state in the pending set continues polling; any other state is
  an unexpected-state failure; reaching the deadline is a timeout error.
\<close>

fun WaitForStateLoop ::
  "StateChangeConf \<Rightarrow> nat \<Rightarrow> session \<Rightarrow> (panic + (error + ResourceInstance option)) \<times> session" where
  "WaitForStateLoop conf 0 s = (Inr (Inl TimeoutError), s)"
| "WaitForStateLoop conf (Suc n) s =
     (case Refresh conf s of
        (Inl p, s') \<Rightarrow> (Inl p, s')
      | (Inr (res, currentState, Some err), s') \<Rightarrow> (Inr (Inl err), s')
      | (Inr (res, currentState, None), s') \<Rightarrow>
          if currentState \<in> set (Target conf) then (Inr (Inr res), s')
          else if currentState \<in> set (Pending conf) then WaitForStateLoop conf n s'
          else (Inr (Inl (UnexpectedStateError currentState)), s'))"

definition WaitForState ::
  "StateChangeConf \<Rightarrow> session \<Rightarrow> (panic + (error + ResourceInstance option)) \<times> session" where
  "WaitForState conf s = WaitForStateLoop conf (Timeout conf) s"

section \<open>Waiting for create, update and delete\<close>

text \<open>
  Each wait function builds a \<open>StateChangeConf\<close> (\<open>stateConf\<close> in the source, here a
  definition of its own) and calls \<open>WaitForState\<close> on it.

  The \<open>Refresh\<close> closure of \<open>waitForResourceInstanceCreate\<close>.
\<close>

definition refreshCreate :: "meta \<Rightarrow> ResourceData \<Rightarrow> session \<Rightarrow> refreshed \<times> session" where
  "refreshCreate m d s =
     (case GetResourceInstance m (Id d) s of ((instance, resp, err), s') \<Rightarrow>
        (case err of
           Some e \<Rightarrow>
             if resp = Some 404 then (Inr (None, [], Some (ErrDoesNotExistAnymore (Id d) e)), s')
             else (Inr (None, [], Some (ErrGetFailed (Id d) resp e)), s')
         | None \<Rightarrow>
             (case instance of
                None \<Rightarrow> (Inl NilDereference, s')
              | Some i \<Rightarrow>
                  (case State i of
                     None \<Rightarrow> (Inl NilDereference, s')
                   | Some st \<Rightarrow>
                       if st = rsInstanceFailStatus
                       then (Inr (Some i, st, Some (ErrInstanceFailed (Id d))), s')
                       else (Inr (Some i, st, None), s')))))"

definition createStateConf :: "meta \<Rightarrow> ResourceData \<Rightarrow> StateChangeConf" where
  "createStateConf m d =
     \<lparr>Pending = [rsInstanceProgressStatus, rsInstanceInactiveStatus, rsInstanceProvisioningStatus],
      Target = [rsInstanceSuccessStatus],
      Refresh = refreshCreate m d,
      Timeout = TimeoutCreate d, Delay = 10, MinTimeout = 10\<rparr>"

definition waitForResourceInstanceCreate ::
  "meta \<Rightarrow> ResourceData \<Rightarrow> session \<Rightarrow> (panic + (error + ResourceInstance option)) \<times> session" where
  "waitForResourceInstanceCreate m d s =
     (case ResourceControllerV2API m of
        Some err \<Rightarrow> (Inr (Inl (Passed err)), s)
      | None \<Rightarrow> WaitForState (createStateConf m d) s)"

text \<open>The \<open>Refresh\<close> closure of \<open>waitForResourceInstanceUpdate\<close>.\<close>

definition refreshUpdate :: "meta \<Rightarrow> ResourceData \<Rightarrow> session \<Rightarrow> refreshed \<times> session" where
  "refreshUpdate m d s =
     (case GetResourceInstance m (Id d) s of ((instance, resp, err), s') \<Rightarrow>
        (case err of
           Some e \<Rightarrow>
             if resp = Some 404 then (Inr (None, [], Some (ErrDoesNotExistAnymore (Id d) e)), s')
             else (Inr (None, [], Some (ErrGetFailed (Id d) resp e)), s')
         | None \<Rightarrow>
             (case instance of
                None \<Rightarrow> (Inl NilDereference, s')
              | Some i \<Rightarrow>
                  (case State i of
                     None \<Rightarrow> (Inl NilDereference, s')
                   | Some st \<Rightarrow>
                       if st = rsInstanceFailStatus
                       then (Inr (Some i, st, Some (ErrInstanceFailed (Id d))), s')
                       else (Inr (Some i, st, None), s')))))"

definition updateStateConf :: "meta \<Rightarrow> ResourceData \<Rightarrow> StateChangeConf" where
  "updateStateConf m d =
     \<lparr>Pending = [rsInstanceProgressStatus, rsInstanceInactiveStatus],
      Target = [rsInstanceSuccessStatus],
      Refresh = refreshUpdate m d,
      Timeout = TimeoutUpdate d, Delay = 10, MinTimeout = 10\<rparr>"

definition waitForResourceInstanceUpdate ::
  "meta \<Rightarrow> ResourceData \<Rightarrow> session \<Rightarrow> (panic + (error + ResourceInstance option)) \<times> session" where
  "waitForResourceInstanceUpdate m d s =
     (case ResourceControllerV2API m of
        Some err \<Rightarrow> (Inr (Inl (Passed err)), s)
      | None \<Rightarrow> WaitForState (updateStateConf m d) s)"

text \<open>
  The \<open>Refresh\<close> closure of \<open>waitForResourceInstanceDelete\<close>: on a 404 it
  returns the instance of the failed call, the status \<open>rsInstanceSuccessStatus\<close>
  and no error.
\<close>

definition refreshDelete :: "meta \<Rightarrow> ResourceData \<Rightarrow> session \<Rightarrow> refreshed \<times> session" where
  "refreshDelete m d s =
     (case GetResourceInstance m (Id d) s of ((instance, resp, err), s') \<Rightarrow>
        (case err of
           Some e \<Rightarrow>
             if resp = Some 404 then (Inr (instance, rsInstanceSuccessStatus, None), s')
             else (Inr (None, [], Some (ErrGetFailed (Id d) resp e)), s')
         | None \<Rightarrow>
             (case instance of
                None \<Rightarrow> (Inl NilDereference, s')
              | Some i \<Rightarrow>
                  (case State i of
                     None \<Rightarrow> (Inl NilDereference, s')
                   | Some st \<Rightarrow>
                       if st = rsInstanceFailStatus
                       then (Inr (Some i, st, Some (ErrInstanceFailedToDelete (Id d))), s')
                       else (Inr (Some i, st, None), s')))))"

definition deleteStateConf :: "meta \<Rightarrow> ResourceData \<Rightarrow> StateChangeConf" where
  "deleteStateConf m d =
     \<lparr>Pending = [rsInstanceProgressStatus, rsInstanceInactiveStatus, rsInstanceSuccessStatus],
      Target = [rsInstanceRemovedStatus, rsInstanceReclamation],
      Refresh = refreshDelete m d,
      Timeout = TimeoutDelete d, Delay = 10, MinTimeout = 10\<rparr>"

definition waitForResourceInstanceDelete ::
  "meta \<Rightarrow> ResourceData \<Rightarrow> session \<Rightarrow> (panic + (error + ResourceInstance option)) \<times> session" where
  "waitForResourceInstanceDelete m d s =
     (case ResourceControllerV2API m of
        Some err \<Rightarrow> (Inr (Inl (Passed err)), s)
      | None \<Rightarrow> WaitForState (deleteStateConf m d) s)"

section \<open>Delete and Exists\<close>

text \<open>
  A callback returns its error (\<open>None\<close> for \<open>nil\<close>) with the resource data and
  the session as it leaves them, or panics.
\<close>

type_synonym returned = "panic + (error option \<times> ResourceData \<times> session)"

definition resourceIBMResourceInstanceDelete :: "meta \<Rightarrow> ResourceData \<Rightarrow> session \<Rightarrow> returned" where
  "resourceIBMResourceInstanceDelete m d s =
     (case ResourceControllerV2API m of
        Some err \<Rightarrow> Inr (Some (Passed err), d, s)
      | None \<Rightarrow>
          (let id = Id d;
               recursive = True;
               resourceInstanceDelete = \<lparr>do_ID = id, Recursive = recursive\<rparr>
           in case DeleteResourceInstance m resourceInstanceDelete s of ((resp, error), s1) \<Rightarrow>
             (case error of
                Some e \<Rightarrow>
                  if resp = Some 410 then Inr (None, d, s1)
                  else Inr (Some (ErrDeleting e resp), d, s1)
              | None \<Rightarrow>
                  (case waitForResourceInstanceDelete m d s1 of
                     (Inl p, s2) \<Rightarrow> Inl p
                   | (Inr (Inl err), s2) \<Rightarrow> Inr (Some (ErrWaitingDelete (Id d) err), d, s2)
                   | (Inr (Inr _), s2) \<Rightarrow> Inr (None, d\<lparr>Id := []\<rparr>, s2)))))"

definition resourceIBMResourceInstanceExists ::
  "meta \<Rightarrow> ResourceData \<Rightarrow> session \<Rightarrow> panic + ((bool \<times> error option) \<times> ResourceData \<times> session)" where
  "resourceIBMResourceInstanceExists m d s =
     (case ResourceControllerV2API m of
        Some err \<Rightarrow> Inr ((False, Some (Passed err)), d, s)
      | None \<Rightarrow>
          (let instanceID = Id d
           in case GetResourceInstance m instanceID s of ((instance, resp, err), s1) \<Rightarrow>
             (case err of
                Some e \<Rightarrow>
                  if resp = Some 404 then Inr ((False, None), d, s1)
                  else Inr ((False, Some (ErrExistsGetting e resp)), d, s1)
              | None \<Rightarrow>
                  (case instance of
                     None \<Rightarrow> Inl NilDereference
                   | Some i \<Rightarrow>
                       (case State i of
                          None \<Rightarrow> Inl NilDereference
                        | Some st \<Rightarrow>
                            if Contains st ''removed'' \<or> Contains st rsInstanceReclamation
                            then Inr ((False, None), d\<lparr>Id := []\<rparr>, s1)
                            else (case ID i of
                                    None \<Rightarrow> Inl NilDereference
                                  | Some iid \<Rightarrow> Inr ((iid = instanceID, None), d, s1)))))))"

section \<open>Read\<close>

text \<open>\<open>d.Set(key, value)\<close>.\<close>

definition dSet :: "ResourceData \<Rightarrow> string \<Rightarrow> attr \<Rightarrow> ResourceData" where
  "dSet d key v = d\<lparr>attrs := (attrs d)(key \<mapsto> v)\<rparr>"

text \<open>
  \<open>flattenPlanHistory\<close>: \<open>k.StartDate.String()\<close> is a method with a value
  receiver called through a pointer, which panics on \<open>nil\<close>.
\<close>

fun flattenPlanHistory :: "PlanHistoryItem list \<Rightarrow> panic + (string option \<times> string) list" where
  "flattenPlanHistory [] = Inr []"
| "flattenPlanHistory (k # keys) =
     (case StartDate k of
        None \<Rightarrow> Inl NilDereference
      | Some start \<Rightarrow>
          (case flattenPlanHistory keys of
             Inl p \<Rightarrow> Inl p
           | Inr out \<Rightarrow> Inr ((ph_ResourcePlanID k, start) # out)))"

text \<open>
  Lines 557 to 577 of Read: the account, and who and when of restore,
  reclaim, delete, update and create. \<open>deleted_at\<close> is written under the test
  \<open>instance.ScheduledReclaimAt != nil\<close>, from \<open>instance.DeletedAt.String()\<close>.
\<close>

definition readTimestamps :: "ResourceInstance \<Rightarrow> ResourceData \<Rightarrow> panic + ResourceData" where
  "readTimestamps instance d =
     (let d1 = dSet d ''account_id'' (AStr (AccountID instance));
          d2 = dSet d1 ''restored_by'' (AStr (RestoredBy instance));
          d3 = (case RestoredAt instance of
                  Some t \<Rightarrow> dSet d2 ''restored_at'' (AString t)
                | None \<Rightarrow> d2);
          d4 = dSet d3 ''scheduled_reclaim_by'' (AStr (ScheduledReclaimBy instance));
          d5 = (case ScheduledReclaimAt instance of
                  Some t \<Rightarrow> dSet d4 ''scheduled_reclaim_at'' (AString t)
                | None \<Rightarrow> d4)
      in case (if ScheduledReclaimAt instance \<noteq> None
               then (case DeletedAt instance of
                       None \<Rightarrow> Inl NilDereference
                     | Some t \<Rightarrow> Inr (dSet d5 ''deleted_at'' (AString t)))
               else Inr d5) of
           Inl p \<Rightarrow> Inl p
         | Inr d6 \<Rightarrow>
             (let d7 = dSet d6 ''deleted_by'' (AStr (DeletedBy instance));
                  d8 = (case UpdatedAt instance of
                          Some t \<Rightarrow> dSet d7 ''update_at'' (AString t)
                        | None \<Rightarrow> d7);
                  d9 = (case CreatedAt instance of
                          Some t \<Rightarrow> dSet d8 ''created_at'' (AString t)
                        | None \<Rightarrow> d8);
                  d10 = dSet d9 ''update_by'' (AStr (UpdatedBy instance))
              in Inr (dSet d10 ''created_by'' (AStr (CreatedBy instance)))))"

text \<open>
  Lines 578 to 597. The plain copies of fields that the record leaves out (the
  three URLs, \<open>locked\<close>, \<open>allow_cleanup\<close>, \<open>type\<close>, \<open>sub_type\<close>, \<open>last_operation\<close>)
  are left out here too.
\<close>

definition readRest :: "ResourceInstance \<Rightarrow> ResourceData \<Rightarrow> panic + ResourceData" where
  "readRest instance d =
     (let d1 = dSet d ''state'' (AStr (State instance));
          d2 = dSet d1 ''target_crn'' (AStr (TargetCRN instance));
          d3 = dSet d2 ''resource_plan_id'' (AStr (ResourcePlanID instance));
          d4 = dSet d3 ''resource_id'' (AStr (ResourceID instance));
          d5 = dSet d4 ''resource_group_crn'' (AStr (ResourceGroupCRN instance))
      in case PlanHistory instance of
           None \<Rightarrow> Inr d5
         | Some keys \<Rightarrow>
             (case flattenPlanHistory keys of
                Inl p \<Rightarrow> Inl p
              | Inr out \<Rightarrow> Inr (dSet d5 ''plan_history'' (APlanHistory out))))"

text \<open>
  Lines 498 to 515, after \<open>*instance.CRN\<close> was read: an error of the tag service
  is logged only. The keys \<open>ResourceName\<close>, \<open>ResourceCRN\<close>, \<open>ResourceStatus\<close>,
  \<open>ResourceGroupName\<close> and \<open>ResourceControllerURL\<close> are constants of another
  file: they stand here by their Go names.
\<close>

definition readFirst :: "meta \<Rightarrow> ResourceInstance \<Rightarrow> string \<Rightarrow> ResourceData \<Rightarrow> ResourceData" where
  "readFirst m instance crn d =
     (let tags = fst (GetTagsUsingCRN m crn);
          d1 = dSet d ''tags'' (ATags tags);
          d2 = dSet d1 ''name'' (AStr (Name instance));
          d3 = dSet d2 ''status'' (AStr (State instance));
          d4 = dSet d3 ''resource_group_id'' (AStr (ResourceGroupID instance));
          location = Split crn (CHR '':'');
          d5 = (if length location > 5 then dSet d4 ''location'' (AString (location ! 5)) else d4);
          d6 = dSet d5 ''crn'' (AStr (CRN instance))
      in dSet d6 ''dashboard_url'' (AStr (DashboardURL instance)))"

definition resourceIBMResourceInstanceRead :: "meta \<Rightarrow> ResourceData \<Rightarrow> session \<Rightarrow> returned" where
  "resourceIBMResourceInstanceRead m d s =
     (case ResourceControllerV2API m of
        Some err \<Rightarrow> Inr (Some (Passed err), d, s)
      | None \<Rightarrow>
     (let instanceID = Id d
      in case GetResourceInstance m instanceID s of ((instance, resp, err), s1) \<Rightarrow>
     (case err of
        Some e \<Rightarrow> Inr (Some (ErrRetrievingInstance e resp), d, s1)
      | None \<Rightarrow>
     (case instance of
        None \<Rightarrow> Inl NilDereference
      | Some i \<Rightarrow>
     (case CRN i of
        None \<Rightarrow> Inl NilDereference
      | Some crn \<Rightarrow>
     (let d1 = readFirst m i crn d
      in case ResourceCatalogAPI m of
        Some err \<Rightarrow> Inr (Some (Passed err), d1, s1)
      | None \<Rightarrow>
     (case ResourceID i of
        None \<Rightarrow> Inl NilDereference
      | Some resourceID \<Rightarrow>
     (case GetServiceName m resourceID of
        (serviceOff, Some e) \<Rightarrow> Inr (Some (ErrRetrievingServiceOffering e), d1, s1)
      | (serviceOff, None) \<Rightarrow>
     (let d2 = dSet d1 ''service'' (AString serviceOff);
          d3 = dSet d2 ''ResourceName'' (AStr (Name i));
          d4 = dSet d3 ''ResourceCRN'' (AStr (CRN i));
          d5 = dSet d4 ''ResourceStatus'' (AStr (State i));
          d6 = dSet d5 ''ResourceGroupName'' (AStr (ResourceGroupCRN i))
      in case getBaseController m of
        (rcontroller, Some e) \<Rightarrow> Inr (Some (Passed e), d6, s1)
      | (rcontroller, None) \<Rightarrow>
     (let d7 = dSet d6 ''ResourceControllerURL'' (AString (rcontroller @ ''/services/''))
      in case ResourcePlanID i of
        None \<Rightarrow> Inl NilDereference
      | Some planID \<Rightarrow>
     (case GetServicePlanName m planID of
        (servicePlan, Some e) \<Rightarrow> Inr (Some (ErrRetrievingPlan e), d7, s1)
      | (servicePlan, None) \<Rightarrow>
     (let d8 = dSet d7 ''plan'' (AString servicePlan);
          d9 = dSet d8 ''guid'' (AStr (GUID i));
          d10 = (case Parameters i ''service-endpoints'' of
                   Some endpoint \<Rightarrow> dSet d9 ''service_endpoints'' (AParam endpoint)
                 | None \<Rightarrow> d9)
      in case readTimestamps i d10 of
        Inl p \<Rightarrow> Inl p
      | Inr d11 \<Rightarrow>
     (case readRest i d11 of
        Inl p \<Rightarrow> Inl p
      | Inr d12 \<Rightarrow> Inr (None, d12, s1))))))))))))))"

section \<open>Create\<close>

definition CreateResourceInstance ::
  "meta \<Rightarrow> CreateResourceInstanceOptions \<Rightarrow> session
     \<Rightarrow> (ResourceInstance option \<times> int option \<times> string option) \<times> session" where
  "CreateResourceInstance m opts s =
     (CreateResourceInstance_answer m opts, s\<lparr>log := log s @ [CallCreate opts]\<rparr>)"

text \<open>
  Lines 421 to 451: the payload. \<open>d.GetOk\<close> is true for a value that is set and
  is not the zero value of its type.
\<close>

definition createParams :: "ResourceData \<Rightarrow> (string \<rightharpoonup> param)" where
  "createParams d =
     (let params = Map.empty;
          params1 = (if strs d ''service_endpoints'' \<noteq> []
                     then params(''service-endpoints'' \<mapsto> PStr (strs d ''service_endpoints''))
                     else params)
      in if parameters d \<noteq> [] then coerceParameters params1 (parameters d) else params1)"

text \<open>
  Lines 453 to 480: the create call, the identifier, the wait, the tags (an
  error of the tag service is logged only) and Read.
\<close>

definition createSubmit ::
  "meta \<Rightarrow> ResourceData \<Rightarrow> CreateResourceInstanceOptions \<Rightarrow> session \<Rightarrow> returned" where
  "createSubmit m d rsInst s =
     (case CreateResourceInstance m rsInst s of ((instance, resp, err), s1) \<Rightarrow>
     (case err of
        Some e \<Rightarrow> Inr (Some (ErrCreating e resp), d, s1)
      | None \<Rightarrow>
     (case instance of
        None \<Rightarrow> Inl NilDereference
      | Some i \<Rightarrow>
     (case ID i of
        None \<Rightarrow> Inl NilDereference
      | Some newID \<Rightarrow>
     (let d1 = d\<lparr>Id := newID\<rparr>
      in case waitForResourceInstanceCreate m d1 s1 of
        (Inl p, s2) \<Rightarrow> Inl p
      | (Inr (Inl err), s2) \<Rightarrow> Inr (Some (ErrWaitingCreate (Id d1) err), d1, s2)
      | (Inr (Inr _), s2) \<Rightarrow>
          if tagsSet d1 \<or> IC_ENV_TAGS m \<noteq> [] then
            (case CRN i of
               None \<Rightarrow> Inl NilDereference
             | Some crn \<Rightarrow>
                 resourceIBMResourceInstanceRead m d1 (s2\<lparr>log := log s2 @ [CallUpdateTags crn]\<rparr>))
          else resourceIBMResourceInstanceRead m d1 s2)))))"

definition resourceIBMResourceInstanceCreate :: "meta \<Rightarrow> ResourceData \<Rightarrow> session \<Rightarrow> returned" where
  "resourceIBMResourceInstanceCreate m d s =
     (case ResourceControllerV2API m of
        Some err \<Rightarrow> Inr (Some (Passed err), d, s)
      | None \<Rightarrow>
     (let serviceName = strs d ''service'';
          plan = strs d ''plan'';
          name = strs d ''name'';
          location = strs d ''location''
      in case ResourceCatalogAPI m of
        Some err \<Rightarrow> Inr (Some (Passed err), d, s)
      | None \<Rightarrow>
     (case FindByName m serviceName of
        (serviceOff, Some e) \<Rightarrow> Inr (Some (ErrRetrievingServiceOffering e), d, s)
      | (serviceOff, None) \<Rightarrow>
     (case serviceOff of
        [] \<Rightarrow> Inl IndexOutOfRange
      | serviceOff0 # _ \<Rightarrow>
     (case Metadata serviceOff0 of
        OtherMetadata \<Rightarrow> Inr (Some (ErrCannotCreateInstance serviceName), d, s)
      | ServiceResourceMetadata RCProvisionable \<Rightarrow>
     (if \<not> RCProvisionable then Inr (Some (ErrCannotBeProvisioned serviceName), d, s)
      else
     (case GetServicePlanID m serviceOff0 plan of
        (servicePlan, Some e) \<Rightarrow> Inr (Some (ErrRetrievingPlan e), d, s)
      | (servicePlan, None) \<Rightarrow>
     (case ListDeployments m servicePlan of
        (deployments, Some e) \<Rightarrow> Inr (Some (ErrRetrievingDeployment plan e), d, s)
      | (deployments, None) \<Rightarrow>
     (if length deployments = 0 then Inr (Some (ErrNoDeploymentFound plan), d, s)
      else
     (case filterDeployments deployments location of (deployments', supportedLocations) \<Rightarrow>
     (case deployments' of
        [] \<Rightarrow> Inr (Some (ErrNoDeploymentAtLocation plan location supportedLocations), d, s)
      | deployment0 # _ \<Rightarrow>
     (case (if strs d ''resource_group_id'' \<noteq> []
            then (strs d ''resource_group_id'', None)
            else defaultResourceGroup m) of
        (rg, Some err) \<Rightarrow> Inr (Some (Passed err), d, s)
      | (rg, None) \<Rightarrow>
          createSubmit m d
            \<lparr>co_Name = name, co_Target = CatalogCRN deployment0, co_ResourceGroup = rg,
             co_ResourcePlanID = servicePlan, co_Parameters = createParams d\<rparr> s))))))))))))"

section \<open>Update\<close>

definition UpdateResourceInstance ::
  "meta \<Rightarrow> UpdateResourceInstanceOptions \<Rightarrow> session
     \<Rightarrow> (ResourceInstance option \<times> int option \<times> string option) \<times> session" where
  "UpdateResourceInstance m opts s =
     (UpdateResourceInstance_answer m opts, s\<lparr>log := log s @ [CallUpdate opts]\<rparr>)"

text \<open>
  Lines 616 to 637: the plan identifier when the plan changed (\<open>None\<close>:
  \<open>ResourcePlanID\<close> stays \<open>nil\<close>).
\<close>

definition updatePlan :: "meta \<Rightarrow> ResourceData \<Rightarrow> panic + (error + string option)" where
  "updatePlan m d =
     (if HasChange d ''plan'' then
        (let plan = strs d ''plan'';
             service = strs d ''service''
         in case ResourceCatalogAPI m of
           Some err \<Rightarrow> Inr (Inl (Passed err))
         | None \<Rightarrow>
        (case FindByName m service of
           (serviceOff, Some e) \<Rightarrow> Inr (Inl (ErrRetrievingServiceOffering e))
         | (serviceOff, None) \<Rightarrow>
        (case serviceOff of
           [] \<Rightarrow> Inl IndexOutOfRange
         | serviceOff0 # _ \<Rightarrow>
        (case GetServicePlanID m serviceOff0 plan of
           (servicePlan, Some e) \<Rightarrow> Inr (Inl (ErrRetrievingPlan e))
         | (servicePlan, None) \<Rightarrow> Inr (Inr (Some servicePlan))))))
      else Inr (Inr None))"

text \<open>
  Lines 638 to 687: the payload of the update request, \<open>None\<close> when
  \<open>resourceInstanceUpdate.Parameters\<close> is not assigned. The else-branch at line
  680 reads \<open>instance.Parameters\<close> through the pointer the fetch returned.
\<close>

definition updateParameters ::
  "meta \<Rightarrow> ResourceData \<Rightarrow> session \<Rightarrow> (panic + (error + (string \<rightharpoonup> param) option)) \<times> session" where
  "updateParameters m d s =
     (let params = Map.empty;
          params1 = (if HasChange d ''service_endpoints''
                     then params(''service-endpoints'' \<mapsto> PStr (strs d ''service_endpoints''))
                     else params)
      in if HasChange d ''parameters'' then
        (case GetResourceInstance m (Id d) s of ((instance, resp, err), s1) \<Rightarrow>
        (case err of
           Some e \<Rightarrow> (Inr (Inl (ErrRetrievingInstance e resp)), s1)
         | None \<Rightarrow>
        (let params2 = (if parameters d \<noteq> [] then coerceParameters params1 (parameters d)
                        else params1);
             serviceEndpoints = strs d ''service_endpoints''
         in if serviceEndpoints \<noteq> []
            then (Inr (Inr (Some (params2(''service-endpoints'' \<mapsto> PStr serviceEndpoints)))), s1)
            else
              (case instance of
                 None \<Rightarrow> (Inl NilDereference, s1)
               | Some i \<Rightarrow>
                   (case Parameters i ''service-endpoints'' of
                      Some endpoint \<Rightarrow>
                        (Inr (Inr (Some (params2(''service-endpoints'' \<mapsto> endpoint)))), s1)
                    | None \<Rightarrow> (Inr (Inr (Some params2)), s1))))))
      else if HasChange d ''service_endpoints'' then (Inr (Inr (Some params1)), s)
      else (Inr (Inr None), s))"

text \<open>
  Lines 689 to 714: the second fetch, the tags (an error of the tag service
  is logged only), the update call, the wait and Read.
\<close>

definition updateSubmit ::
  "meta \<Rightarrow> ResourceData \<Rightarrow> UpdateResourceInstanceOptions \<Rightarrow> session \<Rightarrow> returned" where
  "updateSubmit m d resourceInstanceUpdate s =
     (case GetResourceInstance m (Id d) s of ((instance, resp, err), s1) \<Rightarrow>
     (case err of
        Some e \<Rightarrow> Inr (Some (ErrGettingInstance e resp), d, s1)
      | None \<Rightarrow>
     (case (if HasChange d ''tags'' then
              (case instance of
                 None \<Rightarrow> Inl NilDereference
               | Some i \<Rightarrow>
                   (case CRN i of
                      None \<Rightarrow> Inl NilDereference
                    | Some crn \<Rightarrow> Inr (s1\<lparr>log := log s1 @ [CallUpdateTags crn]\<rparr>)))
            else Inr s1) of
        Inl p \<Rightarrow> Inl p
      | Inr s2 \<Rightarrow>
     (case UpdateResourceInstance m resourceInstanceUpdate s2 of ((_, resp, err), s3) \<Rightarrow>
     (case err of
        Some e \<Rightarrow> Inr (Some (ErrUpdating e resp), d, s3)
      | None \<Rightarrow>
     (case waitForResourceInstanceUpdate m d s3 of
        (Inl p, s4) \<Rightarrow> Inl p
      | (Inr (Inl err), s4) \<Rightarrow> Inr (Some (ErrWaitingUpdate (Id d) err), d, s4)
      | (Inr (Inr _), s4) \<Rightarrow> resourceIBMResourceInstanceRead m d s4))))))"

definition resourceIBMResourceInstanceUpdate :: "meta \<Rightarrow> ResourceData \<Rightarrow> session \<Rightarrow> returned" where
  "resourceIBMResourceInstanceUpdate m d s =
     (case ResourceControllerV2API m of
        Some err \<Rightarrow> Inr (Some (Passed err), d, s)
      | None \<Rightarrow>
     (let instanceID = Id d;
          name = (if HasChange d ''name'' then Some (strs d ''name'') else None)
      in case updatePlan m d of
        Inl p \<Rightarrow> Inl p
      | Inr (Inl err) \<Rightarrow> Inr (Some err, d, s)
      | Inr (Inr resourcePlanID) \<Rightarrow>
     (case updateParameters m d s of
        (Inl p, s1) \<Rightarrow> Inl p
      | (Inr (Inl err), s1) \<Rightarrow> Inr (Some err, d, s1)
      | (Inr (Inr params), s1) \<Rightarrow>
          updateSubmit m d
            \<lparr>uo_ID = instanceID, uo_Name = name, uo_ResourcePlanID = resourcePlanID,
             uo_Parameters = params\<rparr> s1)))"

section \<open>Example values\<close>

text \<open>
  A live instance in a given state, collaborators that answer without error
  (the fetches answer as a given sequence says), a resource configured for
  service \<open>example-db\<close>, plan \<open>standard\<close>, location \<open>us-south\<close>, and a fresh
  session. The theorems below are applied to them.
\<close>

definition exInstance :: "string \<Rightarrow> ResourceInstance" where
  "exInstance st =
     \<lparr>ID = Some ''i-1'', GUID = Some ''g-1'',
      CRN = Some ''crn:v1:bluemix:public:example-db:us-south:a/acct:g-1::'',
      Name = Some ''db'', State = Some st,
      ResourceGroupID = Some ''rg-1'', ResourceGroupCRN = Some ''crn:rg-1'',
      ResourceID = Some ''example-db-id'', ResourcePlanID = Some ''standard-id'',
      TargetCRN = Some ''crn:us-south'', DashboardURL = Some ''https://dashboard'',
      AccountID = Some ''acct'', Parameters = Map.empty,
      CreatedAt = Some ''2021-01-01T00:00:00.000Z'', CreatedBy = Some ''user'',
      UpdatedAt = None, UpdatedBy = None, DeletedAt = None, DeletedBy = None,
      ScheduledReclaimAt = None, ScheduledReclaimBy = None,
      RestoredAt = None, RestoredBy = None, PlanHistory = None\<rparr>"

definition exService :: Service where
  "exService = \<lparr>ServiceName = ''example-db'', Metadata = ServiceResourceMetadata True\<rparr>"

definition exMeta :: "(nat \<Rightarrow> fetch) \<Rightarrow> meta" where
  "exMeta answers =
     \<lparr>ResourceControllerV2API = None, ResourceCatalogAPI = None,
      FindByName = (\<lambda>name. ([exService], None)),
      GetServicePlanID = (\<lambda>service plan. (''standard-id'', None)),
      ListDeployments =
        (\<lambda>plan. ([\<lparr>CatalogCRN = ''crn:us-south'', RCCompatible = True, Location = ''us-south''\<rparr>], None)),
      GetServiceName = (\<lambda>resourceID. (''example-db'', None)),
      GetServicePlanName = (\<lambda>planID. (''standard'', None)),
      defaultResourceGroup = (''rg-default'', None),
      getBaseController = (''https://cloud.example'', None),
      CreateResourceInstance_answer = (\<lambda>opts. (Some (exInstance ''provisioning''), Some 201, None)),
      GetResourceInstance_answer = (\<lambda>n instanceID. answers n),
      UpdateResourceInstance_answer = (\<lambda>opts. (Some (exInstance ''active''), Some 200, None)),
      DeleteResourceInstance_answer = (\<lambda>opts. (Some 204, None)),
      GetTagsUsingCRN = (\<lambda>crn. ([], None)),
      UpdateTagsUsingCRN = (\<lambda>crn. None),
      IC_ENV_TAGS = []\<rparr>"

definition exData :: ResourceData where
  "exData =
     \<lparr>Id = ''i-1'',
      strs = (\<lambda>key. if key = ''service'' then ''example-db''
                    else if key = ''plan'' then ''standard''
                    else if key = ''name'' then ''db''
                    else if key = ''location'' then ''us-south''
                    else []),
      parameters = [], tagsSet = False, HasChange = (\<lambda>key. False), attrs = Map.empty,
      TimeoutCreate = 3, TimeoutUpdate = 3, TimeoutDelete = 3\<rparr>"

definition exSession :: session where
  "exSession = \<lparr>log = [], gets = 0\<rparr>"

text \<open>A fetch that finds the instance in a state, and one that fails with a 404.\<close>

definition found :: "string \<Rightarrow> fetch" where
  "found st = (Some (exInstance st), Some 200, None)"

definition notFound :: fetch where
  "notFound = (None, Some 404, Some ''not found'')"

text \<open>
  The live instance with the parameter \<open>service-endpoints\<close> set to \<open>private\<close>, and
  collaborators that find no offering and no error.
\<close>

definition exLive :: ResourceInstance where
  "exLive = (exInstance ''active'')\<lparr>Parameters := [''service-endpoints'' \<mapsto> PStr ''private'']\<rparr>"

definition exMetaNoOffering :: meta where
  "exMetaNoOffering = (exMeta (\<lambda>n. found ''active''))\<lparr>FindByName := (\<lambda>name. ([], None))\<rparr>"

section \<open>Parameter coercion as the spec words it\<close>

text \<open>
  The spec (4.2), for one value: if it is literally \<open>true\<close> or \<open>false\<close>, a
  boolean; else if it starts with an opening square bracket and ends with a
  closing one, strip the brackets (the one it starts with and the one it ends
  with), split on the comma and trim the surrounding double quotes from each
  element; else the string unchanged.
\<close>

definition spec_coerceValue :: "string \<Rightarrow> param" where
  "spec_coerceValue v =
     (if v = ''true'' then PBool True
      else if v = ''false'' then PBool False
      else if v \<noteq> [] \<and> hd v = CHR ''['' \<and> last v = CHR '']''
        then PList (map (\<lambda>a. Trim a [CHR 0x22]) (Split (butlast (tl v)) (CHR '','')))
      else PStr v)"

section \<open>Properties of the string functions\<close>

lemma TrimLeft_dropWhile: "TrimLeft s cutset = dropWhile (\<lambda>c. c \<in> set cutset) s"
  by (induction s) auto

lemma TrimRight_dropWhile: "TrimRight s cutset = rev (dropWhile (\<lambda>c. c \<in> set cutset) (rev s))"
  by (simp add: TrimRight_def TrimLeft_dropWhile)

lemma Split_not_Nil: "Split s sep \<noteq> []"
  by (induction s) (auto split: list.splits)

lemma Split_no_sep: "p \<in> set (Split s sep) \<Longrightarrow> sep \<notin> set p"
  by (induction s arbitrary: p) (auto split: list.splits if_splits)

lemma Join_Split: "Join (Split s sep) sep = s"
proof (induction s)
  case Nil
  show ?case by simp
next
  case (Cons c s)
  obtain p ps where sp: "Split s sep = p # ps"
    using Split_not_Nil [of s sep] by (cases "Split s sep") auto
  with Cons show ?case
    by (cases ps) auto
qed

lemma length_Split: "length (Split s sep) = Suc (length (filter (\<lambda>c. c = sep) s))"
  by (induction s) (auto split: list.splits simp: Split_not_Nil)

lemma HasPrefix_prefix: "HasPrefix s p \<longleftrightarrow> prefix p s"
proof
  assume "HasPrefix s p"
  then have "s = p @ drop (length p) s"
    by (metis HasPrefix_def append_take_drop_id)
  then show "prefix p s"
    by (metis prefixI)
next
  assume "prefix p s"
  then obtain zs where "s = p @ zs"
    by (auto simp: prefix_def)
  then show "HasPrefix s p"
    by (simp add: HasPrefix_def)
qed

lemma Contains_sublist: "Contains s sub \<longleftrightarrow> sublist sub s"
  by (induction s) (auto simp: sublist_Cons_right HasPrefix_prefix)

lemma foldl_snoc_map: "foldl (\<lambda>result a. result @ [f a]) acc xs = acc @ map f xs"
  by (induction xs arbitrary: acc) auto

section \<open>Properties of the deployment filter\<close>

lemma filterLoop_fst:
  "fst (filterLoop ds L (sd, sl)) = sd @ filter (\<lambda>d. RCCompatible d \<and> Location d = L) ds"
  by (induction ds arbitrary: sd sl) (auto simp: Let_def)

lemma filterLoop_snd:
  "snd (filterLoop ds L (sd, sl)) =
     (\<lambda>l. if \<exists>d\<in>set ds. RCCompatible d \<and> Location d = l then Some True else sl l)"
  by (induction ds arbitrary: sd sl) (auto simp: Let_def fun_eq_iff)

text \<open>
  C3. For every list of deployment descriptors and every location \<open>L\<close>, the
  match list of \<open>filterDeployments\<close> holds exactly the descriptors whose
  compatibility flag is set and whose location is \<open>L\<close> (the strings are compared
  as they are, byte by byte), in their order; the location map holds exactly
  the locations of the flagged descriptors, matching or not, so an unflagged
  descriptor adds to neither; and the match list is empty, with nothing
  raised, exactly when no flagged descriptor has location \<open>L\<close>.
\<close>

theorem filterDeployments_matches_and_locations:
  "fst (filterDeployments ds L) = filter (\<lambda>d. RCCompatible d \<and> Location d = L) ds
   \<and> snd (filterDeployments ds L) =
       (\<lambda>l. if \<exists>d\<in>set ds. RCCompatible d \<and> Location d = l then Some True else None)
   \<and> dom (snd (filterDeployments ds L)) = Location ` {d \<in> set ds. RCCompatible d}
   \<and> (fst (filterDeployments ds L) = []) = (\<not> (\<exists>d\<in>set ds. RCCompatible d \<and> Location d = L))"
proof -
  have matches: "fst (filterDeployments ds L) = filter (\<lambda>d. RCCompatible d \<and> Location d = L) ds"
    by (simp add: filterDeployments_def filterLoop_fst)
  have locs: "snd (filterDeployments ds L) =
      (\<lambda>l. if \<exists>d\<in>set ds. RCCompatible d \<and> Location d = l then Some True else None)"
    by (simp add: filterDeployments_def filterLoop_snd)
  have keys: "dom (snd (filterDeployments ds L)) = Location ` {d \<in> set ds. RCCompatible d}"
    unfolding locs by (auto simp: dom_def)
  have none: "(fst (filterDeployments ds L) = []) = (\<not> (\<exists>d\<in>set ds. RCCompatible d \<and> Location d = L))"
    unfolding matches by (auto simp: filter_empty_conv)
  from matches locs keys none show ?thesis
    by blast
qed

section \<open>Properties of polling\<close>

lemmas status_defs = rsInstanceSuccessStatus_def rsInstanceProgressStatus_def
  rsInstanceProvisioningStatus_def rsInstanceInactiveStatus_def rsInstanceFailStatus_def
  rsInstanceRemovedStatus_def rsInstanceReclamation_def

lemma refreshCreate_state:
  assumes "fst (GetResourceInstance m (Id d) s) = (Some i, resp, None)" and "State i = Some st"
  shows "refreshCreate m d s =
     (if st = ''failed'' then Inr (Some i, st, Some (ErrInstanceFailed (Id d))) else Inr (Some i, st, None),
      snd (GetResourceInstance m (Id d) s))"
  using assms by (cases "GetResourceInstance m (Id d) s") (simp add: refreshCreate_def rsInstanceFailStatus_def)

lemma refreshUpdate_state:
  assumes "fst (GetResourceInstance m (Id d) s) = (Some i, resp, None)" and "State i = Some st"
  shows "refreshUpdate m d s =
     (if st = ''failed'' then Inr (Some i, st, Some (ErrInstanceFailed (Id d))) else Inr (Some i, st, None),
      snd (GetResourceInstance m (Id d) s))"
  using assms by (cases "GetResourceInstance m (Id d) s") (simp add: refreshUpdate_def rsInstanceFailStatus_def)

lemma refreshDelete_state:
  assumes "fst (GetResourceInstance m (Id d) s) = (Some i, resp, None)" and "State i = Some st"
  shows "refreshDelete m d s =
     (if st = ''failed'' then Inr (Some i, st, Some (ErrInstanceFailedToDelete (Id d))) else Inr (Some i, st, None),
      snd (GetResourceInstance m (Id d) s))"
  using assms by (cases "GetResourceInstance m (Id d) s") (simp add: refreshDelete_def rsInstanceFailStatus_def)

lemma refreshCreate_404:
  assumes "fst (GetResourceInstance m (Id d) s) = (instance, Some 404, Some e)"
  shows "refreshCreate m d s =
     (Inr (None, [], Some (ErrDoesNotExistAnymore (Id d) e)), snd (GetResourceInstance m (Id d) s))"
  using assms by (cases "GetResourceInstance m (Id d) s") (simp add: refreshCreate_def)

lemma refreshUpdate_404:
  assumes "fst (GetResourceInstance m (Id d) s) = (instance, Some 404, Some e)"
  shows "refreshUpdate m d s =
     (Inr (None, [], Some (ErrDoesNotExistAnymore (Id d) e)), snd (GetResourceInstance m (Id d) s))"
  using assms by (cases "GetResourceInstance m (Id d) s") (simp add: refreshUpdate_def)

lemma refreshDelete_404:
  assumes "fst (GetResourceInstance m (Id d) s) = (instance, Some 404, Some e)"
  shows "refreshDelete m d s =
     (Inr (instance, ''active'', None), snd (GetResourceInstance m (Id d) s))"
  using assms by (cases "GetResourceInstance m (Id d) s") (simp add: refreshDelete_def status_defs)

text \<open>
  C6. The state tables. Create waits with pending states provisioning, in
  progress and inactive and target active; update with pending in progress and
  inactive and target active; delete with pending in progress, inactive and
  active and targets removed and pending_reclamation. In each, when a fetch
  finds the instance in state \<open>st\<close>: \<open>failed\<close> ends the wait with the error of
  the failed instance, a target state ends it with the instance, a pending
  state goes on to the next refresh, and any other state ends it with the
  unexpected-state error.
\<close>

theorem polling_state_tables:
  assumes "fst (GetResourceInstance m (Id d) s) = (Some i, resp, None)" and "State i = Some st"
  shows
   "set (Pending (createStateConf m d)) = {''provisioning'', ''in progress'', ''inactive''}
    \<and> set (Target (createStateConf m d)) = {''active''}
    \<and> WaitForStateLoop (createStateConf m d) (Suc n) s =
        (if st = ''failed''
           then (Inr (Inl (ErrInstanceFailed (Id d))), snd (GetResourceInstance m (Id d) s))
         else if st \<in> {''active''}
           then (Inr (Inr (Some i)), snd (GetResourceInstance m (Id d) s))
         else if st \<in> {''provisioning'', ''in progress'', ''inactive''}
           then WaitForStateLoop (createStateConf m d) n (snd (GetResourceInstance m (Id d) s))
         else (Inr (Inl (UnexpectedStateError st)), snd (GetResourceInstance m (Id d) s)))
    \<and> set (Pending (updateStateConf m d)) = {''in progress'', ''inactive''}
    \<and> set (Target (updateStateConf m d)) = {''active''}
    \<and> WaitForStateLoop (updateStateConf m d) (Suc n) s =
        (if st = ''failed''
           then (Inr (Inl (ErrInstanceFailed (Id d))), snd (GetResourceInstance m (Id d) s))
         else if st \<in> {''active''}
           then (Inr (Inr (Some i)), snd (GetResourceInstance m (Id d) s))
         else if st \<in> {''in progress'', ''inactive''}
           then WaitForStateLoop (updateStateConf m d) n (snd (GetResourceInstance m (Id d) s))
         else (Inr (Inl (UnexpectedStateError st)), snd (GetResourceInstance m (Id d) s)))
    \<and> set (Pending (deleteStateConf m d)) = {''in progress'', ''inactive'', ''active''}
    \<and> set (Target (deleteStateConf m d)) = {''removed'', ''pending_reclamation''}
    \<and> WaitForStateLoop (deleteStateConf m d) (Suc n) s =
        (if st = ''failed''
           then (Inr (Inl (ErrInstanceFailedToDelete (Id d))), snd (GetResourceInstance m (Id d) s))
         else if st \<in> {''removed'', ''pending_reclamation''}
           then (Inr (Inr (Some i)), snd (GetResourceInstance m (Id d) s))
         else if st \<in> {''in progress'', ''inactive'', ''active''}
           then WaitForStateLoop (deleteStateConf m d) n (snd (GetResourceInstance m (Id d) s))
         else (Inr (Inl (UnexpectedStateError st)), snd (GetResourceInstance m (Id d) s)))"
proof -
  have c1: "set (Pending (createStateConf m d)) = {''provisioning'', ''in progress'', ''inactive''}"
    by (auto simp: createStateConf_def status_defs)
  have c2: "set (Target (createStateConf m d)) = {''active''}"
    by (simp add: createStateConf_def status_defs)
  have c3: "Refresh (createStateConf m d) = refreshCreate m d"
    by (simp add: createStateConf_def)
  have u1: "set (Pending (updateStateConf m d)) = {''in progress'', ''inactive''}"
    by (auto simp: updateStateConf_def status_defs)
  have u2: "set (Target (updateStateConf m d)) = {''active''}"
    by (simp add: updateStateConf_def status_defs)
  have u3: "Refresh (updateStateConf m d) = refreshUpdate m d"
    by (simp add: updateStateConf_def)
  have d1: "set (Pending (deleteStateConf m d)) = {''in progress'', ''inactive'', ''active''}"
    by (auto simp: deleteStateConf_def status_defs)
  have d2: "set (Target (deleteStateConf m d)) = {''removed'', ''pending_reclamation''}"
    by (auto simp: deleteStateConf_def status_defs)
  have d3: "Refresh (deleteStateConf m d) = refreshDelete m d"
    by (simp add: deleteStateConf_def)
  have c: "WaitForStateLoop (createStateConf m d) (Suc n) s =
        (if st = ''failed''
           then (Inr (Inl (ErrInstanceFailed (Id d))), snd (GetResourceInstance m (Id d) s))
         else if st \<in> {''active''}
           then (Inr (Inr (Some i)), snd (GetResourceInstance m (Id d) s))
         else if st \<in> {''provisioning'', ''in progress'', ''inactive''}
           then WaitForStateLoop (createStateConf m d) n (snd (GetResourceInstance m (Id d) s))
         else (Inr (Inl (UnexpectedStateError st)), snd (GetResourceInstance m (Id d) s)))"
    unfolding WaitForStateLoop.simps c1 c2 c3 refreshCreate_state [OF assms] by simp
  have u: "WaitForStateLoop (updateStateConf m d) (Suc n) s =
        (if st = ''failed''
           then (Inr (Inl (ErrInstanceFailed (Id d))), snd (GetResourceInstance m (Id d) s))
         else if st \<in> {''active''}
           then (Inr (Inr (Some i)), snd (GetResourceInstance m (Id d) s))
         else if st \<in> {''in progress'', ''inactive''}
           then WaitForStateLoop (updateStateConf m d) n (snd (GetResourceInstance m (Id d) s))
         else (Inr (Inl (UnexpectedStateError st)), snd (GetResourceInstance m (Id d) s)))"
    unfolding WaitForStateLoop.simps u1 u2 u3 refreshUpdate_state [OF assms] by simp
  have dl: "WaitForStateLoop (deleteStateConf m d) (Suc n) s =
        (if st = ''failed''
           then (Inr (Inl (ErrInstanceFailedToDelete (Id d))), snd (GetResourceInstance m (Id d) s))
         else if st \<in> {''removed'', ''pending_reclamation''}
           then (Inr (Inr (Some i)), snd (GetResourceInstance m (Id d) s))
         else if st \<in> {''in progress'', ''inactive'', ''active''}
           then WaitForStateLoop (deleteStateConf m d) n (snd (GetResourceInstance m (Id d) s))
         else (Inr (Inl (UnexpectedStateError st)), snd (GetResourceInstance m (Id d) s)))"
    unfolding WaitForStateLoop.simps d1 d2 d3 refreshDelete_state [OF assms] by simp
  from c1 c2 c u1 u2 u d1 d2 dl show ?thesis
    by blast
qed


lemmas ex_defs = exMeta_def exData_def exSession_def exInstance_def found_def notFound_def
  GetResourceInstance_def

theorem polling_state_tables_witness:
  "fst (GetResourceInstance (exMeta (\<lambda>n. found ''provisioning'')) (Id exData) exSession)
     = (Some (exInstance ''provisioning''), Some 200, None)
   \<and> State (exInstance ''provisioning'') = Some ''provisioning''
   \<and> WaitForStateLoop (createStateConf (exMeta (\<lambda>n. found ''provisioning'')) exData) (Suc 0) exSession
       = (Inr (Inl TimeoutError), \<lparr>log = [CallGet ''i-1''], gets = 1\<rparr>)
   \<and> WaitForStateLoop (updateStateConf (exMeta (\<lambda>n. found ''provisioning'')) exData) (Suc 0) exSession
       = (Inr (Inl (UnexpectedStateError ''provisioning'')), \<lparr>log = [CallGet ''i-1''], gets = 1\<rparr>)
   \<and> WaitForStateLoop (deleteStateConf (exMeta (\<lambda>n. found ''provisioning'')) exData) (Suc 0) exSession
       = (Inr (Inl (UnexpectedStateError ''provisioning'')), \<lparr>log = [CallGet ''i-1''], gets = 1\<rparr>)"
proof -
  have h1: "fst (GetResourceInstance (exMeta (\<lambda>n. found ''provisioning'')) (Id exData) exSession)
     = (Some (exInstance ''provisioning''), Some 200, None)"
    by (simp add: ex_defs)
  have h2: "State (exInstance ''provisioning'') = Some ''provisioning''"
    by (simp add: exInstance_def)
  have h3: "snd (GetResourceInstance (exMeta (\<lambda>n. found ''provisioning'')) (Id exData) exSession)
     = \<lparr>log = [CallGet ''i-1''], gets = 1\<rparr>"
    by (simp add: ex_defs)
  show ?thesis
    using polling_state_tables [OF h1 h2, of 0] h1 h2 h3 by simp
qed


text \<open>
  C7. While create or update polls, a fetch that fails with a 404 makes the
  refresh return the error that the instance does not exist anymore, and the
  wait ends with that error at once, whatever number of refreshes is left: it
  is neither a success nor a reason to poll again.
\<close>

theorem create_update_poll_404_fatal:
  assumes "fst (GetResourceInstance m (Id d) s) = (instance, Some 404, Some e)"
  shows
   "fst (refreshCreate m d s) = Inr (None, [], Some (ErrDoesNotExistAnymore (Id d) e))
    \<and> WaitForStateLoop (createStateConf m d) (Suc n) s =
        (Inr (Inl (ErrDoesNotExistAnymore (Id d) e)), snd (GetResourceInstance m (Id d) s))
    \<and> fst (refreshUpdate m d s) = Inr (None, [], Some (ErrDoesNotExistAnymore (Id d) e))
    \<and> WaitForStateLoop (updateStateConf m d) (Suc n) s =
        (Inr (Inl (ErrDoesNotExistAnymore (Id d) e)), snd (GetResourceInstance m (Id d) s))"
  using refreshCreate_404 [OF assms] refreshUpdate_404 [OF assms]
  by (simp add: createStateConf_def updateStateConf_def)

theorem create_update_poll_404_fatal_witness:
  "fst (GetResourceInstance (exMeta (\<lambda>n. notFound)) (Id exData) exSession)
     = (None, Some 404, Some ''not found'')
   \<and> WaitForStateLoop (createStateConf (exMeta (\<lambda>n. notFound)) exData) (Suc 2) exSession
       = (Inr (Inl (ErrDoesNotExistAnymore ''i-1'' ''not found'')), \<lparr>log = [CallGet ''i-1''], gets = 1\<rparr>)
   \<and> WaitForStateLoop (updateStateConf (exMeta (\<lambda>n. notFound)) exData) (Suc 2) exSession
       = (Inr (Inl (ErrDoesNotExistAnymore ''i-1'' ''not found'')), \<lparr>log = [CallGet ''i-1''], gets = 1\<rparr>)"
proof -
  have h1: "fst (GetResourceInstance (exMeta (\<lambda>n. notFound)) (Id exData) exSession)
     = (None, Some 404, Some ''not found'')"
    by (simp add: ex_defs)
  have h2: "snd (GetResourceInstance (exMeta (\<lambda>n. notFound)) (Id exData) exSession)
     = \<lparr>log = [CallGet ''i-1''], gets = 1\<rparr>"
    by (simp add: ex_defs)
  have h3: "Id exData = ''i-1''"
    by (simp add: exData_def)
  show ?thesis
    using create_update_poll_404_fatal [OF h1, of 2] h1 h2 h3 by simp
qed

text \<open>
  While delete polls, a fetch that fails with a 404 makes the refresh return
  the status \<open>rsInstanceSuccessStatus\<close>, which is \<open>active\<close>: a pending state of the
  delete table and not one of its targets. If every fetch fails so, the wait
  ends with the timeout.
\<close>

lemma delete_poll_404_never_succeeds:
  assumes "\<And>k. GetResourceInstance_answer m k (Id d) = (instance, Some 404, Some e)"
  shows "fst (WaitForStateLoop (deleteStateConf m d) n s) = Inr (Inl TimeoutError)"
proof (induction n arbitrary: s)
  case 0
  show ?case by simp
next
  case (Suc n)
  have "fst (GetResourceInstance m (Id d) s) = (instance, Some 404, Some e)"
    by (simp add: GetResourceInstance_def assms)
  from refreshDelete_404 [OF this] Suc show ?case
    by (simp add: deleteStateConf_def status_defs)
qed

text \<open>
  C1. The claim is that a 404 during delete polling ends the poll with success.
  On a remote that answers every fetch with a 404 and a timeout that leaves
  time for three refreshes, the refresh reports the pending state \<open>active\<close>, the
  wait fetches three times and ends with the timeout error, and Delete returns
  that error with the identifier kept. When the second fetch finds the
  instance removed, the wait succeeds at the second fetch, not at the 404.
\<close>

theorem delete_poll_404_keeps_polling:
  "fst (refreshDelete (exMeta (\<lambda>n. notFound)) exData exSession) = Inr (None, ''active'', None)
   \<and> ''active'' \<in> set (Pending (deleteStateConf (exMeta (\<lambda>n. notFound)) exData))
   \<and> ''active'' \<notin> set (Target (deleteStateConf (exMeta (\<lambda>n. notFound)) exData))
   \<and> waitForResourceInstanceDelete (exMeta (\<lambda>n. notFound)) exData exSession
       = (Inr (Inl TimeoutError),
          \<lparr>log = [CallGet ''i-1'', CallGet ''i-1'', CallGet ''i-1''], gets = 3\<rparr>)
   \<and> resourceIBMResourceInstanceDelete (exMeta (\<lambda>n. notFound)) exData exSession
       = Inr (Some (ErrWaitingDelete ''i-1'' TimeoutError), exData,
          \<lparr>log = [CallDelete \<lparr>do_ID = ''i-1'', Recursive = True\<rparr>,
                  CallGet ''i-1'', CallGet ''i-1'', CallGet ''i-1''], gets = 3\<rparr>)
   \<and> waitForResourceInstanceDelete
         (exMeta (\<lambda>n. if n = 0 then notFound else found ''removed'')) exData exSession
       = (Inr (Inr (Some (exInstance ''removed''))),
          \<lparr>log = [CallGet ''i-1'', CallGet ''i-1''], gets = 2\<rparr>)"
  by (simp add: ex_defs refreshDelete_def deleteStateConf_def status_defs
      waitForResourceInstanceDelete_def WaitForState_def numeral_3_eq_3
      resourceIBMResourceInstanceDelete_def DeleteResourceInstance_def)

section \<open>Properties of Exists and Delete\<close>

text \<open>
  C8. Exists, with the client at hand. The client reports a 404 as an error
  that comes with the response: on a fetch that fails with a 404, Exists
  returns \<open>(false, nil)\<close> and leaves the resource data as it is. On a fetch that
  succeeds with an instance whose state contains \<open>removed\<close> or
  \<open>pending_reclamation\<close>, it returns \<open>(false, nil)\<close> and sets the identifier to the
  empty string. On any other successful fetch it returns whether the
  instance's identifier is the stored one, and whenever it returns the
  resource data is unchanged.
\<close>

theorem exists_404_and_removed:
  assumes "ResourceControllerV2API m = None"
    and "GetResourceInstance m (Id d) s = ((instance, resp, err), s1)"
  shows
   "(err \<noteq> None \<and> resp = Some 404 \<longrightarrow>
       resourceIBMResourceInstanceExists m d s = Inr ((False, None), d, s1))
    \<and> (\<forall>i st. err = None \<and> instance = Some i \<and> State i = Some st
           \<and> (sublist ''removed'' st \<or> sublist ''pending_reclamation'' st) \<longrightarrow>
         resourceIBMResourceInstanceExists m d s = Inr ((False, None), d\<lparr>Id := []\<rparr>, s1))
    \<and> (\<forall>i st iid. err = None \<and> instance = Some i \<and> State i = Some st
           \<and> \<not> sublist ''removed'' st \<and> \<not> sublist ''pending_reclamation'' st
           \<and> ID i = Some iid \<longrightarrow>
         resourceIBMResourceInstanceExists m d s = Inr ((iid = Id d, None), d, s1))
    \<and> (err = None
         \<and> \<not> (\<exists>i st. instance = Some i \<and> State i = Some st
                 \<and> (sublist ''removed'' st \<or> sublist ''pending_reclamation'' st)) \<longrightarrow>
         (\<forall>r d' s'. resourceIBMResourceInstanceExists m d s = Inr (r, d', s') \<longrightarrow> d' = d))"
  using assms
  by (auto simp: resourceIBMResourceInstanceExists_def Contains_sublist rsInstanceReclamation_def
           split: option.splits)

text \<open>A wait that succeeds has seen a refresh report a target state.\<close>

lemma WaitForStateLoop_success:
  "WaitForStateLoop conf n s = (Inr (Inr res), s') \<Longrightarrow>
     \<exists>s0 st. fst (Refresh conf s0) = Inr (res, st, None) \<and> st \<in> set (Target conf)"
proof (induction n arbitrary: s)
  case 0
  then show ?case by simp
next
  case (Suc n)
  then show ?case
    by (auto split: prod.splits sum.splits option.splits if_splits) (metis fst_conv)+
qed

lemma refreshDelete_target:
  assumes "fst (refreshDelete m d s0) = Inr (res, st, None)"
    and "st \<in> {''removed'', ''pending_reclamation''}"
  shows "\<exists>i. res = Some i \<and> State i = Some st"
  using assms
  by (auto simp: refreshDelete_def status_defs split: prod.splits option.splits if_splits)

lemma waitForResourceInstanceDelete_success:
  assumes "waitForResourceInstanceDelete m d s = (Inr (Inr res), s')"
  shows "\<exists>i st. res = Some i \<and> State i = Some st \<and> st \<in> {''removed'', ''pending_reclamation''}"
proof -
  from assms have "WaitForStateLoop (deleteStateConf m d) (TimeoutDelete d) s = (Inr (Inr res), s')"
    by (auto simp: waitForResourceInstanceDelete_def WaitForState_def deleteStateConf_def
             split: option.splits)
  from WaitForStateLoop_success [OF this]
  obtain s0 st where "fst (refreshDelete m d s0) = Inr (res, st, None)"
    and "st \<in> {''removed'', ''pending_reclamation''}"
    by (auto simp: deleteStateConf_def status_defs)
  from refreshDelete_target [OF this] this(2) show ?thesis
    by blast
qed

text \<open>
  C9. Delete, with the client at hand, sends the delete request for the stored
  identifier with \<open>Recursive\<close> true (\<open>s1\<close> is the session after that request). If
  the call fails with a 410, Delete returns no error; if it fails otherwise,
  Delete returns the error without polling. If the call succeeds, Delete
  polls: a failed wait is returned as an error with the identifier kept, and
  Delete returns without error exactly with the identifier cleared, after the
  wait has ended on a fetched instance in state \<open>removed\<close> or
  \<open>pending_reclamation\<close>.
\<close>

theorem delete_recursive_410_poll:
  assumes "ResourceControllerV2API m = None"
    and "DeleteResourceInstance_answer m \<lparr>do_ID = Id d, Recursive = True\<rparr> = (resp, error)"
    and "s1 = s\<lparr>log := log s @ [CallDelete \<lparr>do_ID = Id d, Recursive = True\<rparr>]\<rparr>"
  shows
   "(error \<noteq> None \<and> resp = Some 410 \<longrightarrow>
       resourceIBMResourceInstanceDelete m d s = Inr (None, d, s1))
    \<and> (\<forall>e. error = Some e \<and> resp \<noteq> Some 410 \<longrightarrow>
         resourceIBMResourceInstanceDelete m d s = Inr (Some (ErrDeleting e resp), d, s1))
    \<and> (error = None \<longrightarrow>
         resourceIBMResourceInstanceDelete m d s =
           (case waitForResourceInstanceDelete m d s1 of
              (Inl p, s2) \<Rightarrow> Inl p
            | (Inr (Inl err), s2) \<Rightarrow> Inr (Some (ErrWaitingDelete (Id d) err), d, s2)
            | (Inr (Inr res), s2) \<Rightarrow> Inr (None, d\<lparr>Id := []\<rparr>, s2)))
    \<and> (error = None \<longrightarrow>
         (\<forall>d' s2. resourceIBMResourceInstanceDelete m d s = Inr (None, d', s2) \<longrightarrow>
            d' = d\<lparr>Id := []\<rparr>
            \<and> (\<exists>i st. waitForResourceInstanceDelete m d s1 = (Inr (Inr (Some i)), s2)
                  \<and> State i = Some st \<and> st \<in> {''removed'', ''pending_reclamation''})))"
proof -
  have call: "DeleteResourceInstance m \<lparr>do_ID = Id d, Recursive = True\<rparr> s = ((resp, error), s1)"
    by (simp add: DeleteResourceInstance_def assms)
  have gone: "error \<noteq> None \<and> resp = Some 410 \<longrightarrow>
       resourceIBMResourceInstanceDelete m d s = Inr (None, d, s1)"
    using assms(1) call by (auto simp: resourceIBMResourceInstanceDelete_def)
  have failed: "\<forall>e. error = Some e \<and> resp \<noteq> Some 410 \<longrightarrow>
         resourceIBMResourceInstanceDelete m d s = Inr (Some (ErrDeleting e resp), d, s1)"
    using assms(1) call by (auto simp: resourceIBMResourceInstanceDelete_def)
  have polls: "error = None \<longrightarrow>
         resourceIBMResourceInstanceDelete m d s =
           (case waitForResourceInstanceDelete m d s1 of
              (Inl p, s2) \<Rightarrow> Inl p
            | (Inr (Inl err), s2) \<Rightarrow> Inr (Some (ErrWaitingDelete (Id d) err), d, s2)
            | (Inr (Inr res), s2) \<Rightarrow> Inr (None, d\<lparr>Id := []\<rparr>, s2))"
    using assms(1) call by (auto simp: resourceIBMResourceInstanceDelete_def)
  have cleared: "error = None \<longrightarrow>
         (\<forall>d' s2. resourceIBMResourceInstanceDelete m d s = Inr (None, d', s2) \<longrightarrow>
            d' = d\<lparr>Id := []\<rparr>
            \<and> (\<exists>i st. waitForResourceInstanceDelete m d s1 = (Inr (Inr (Some i)), s2)
                  \<and> State i = Some st \<and> st \<in> {''removed'', ''pending_reclamation''}))"
  proof (intro impI allI)
    fix d' s2
    assume ok: "error = None" and ret: "resourceIBMResourceInstanceDelete m d s = Inr (None, d', s2)"
    from polls ok ret obtain res where w: "waitForResourceInstanceDelete m d s1 = (Inr (Inr res), s2)"
      and d': "d' = d\<lparr>Id := []\<rparr>"
      by (auto split: prod.splits sum.splits)
    from waitForResourceInstanceDelete_success [OF w] w d'
    show "d' = d\<lparr>Id := []\<rparr>
            \<and> (\<exists>i st. waitForResourceInstanceDelete m d s1 = (Inr (Inr (Some i)), s2)
                  \<and> State i = Some st \<and> st \<in> {''removed'', ''pending_reclamation''})"
      by auto
  qed
  from gone failed polls cleared show ?thesis
    by blast
qed



theorem exists_404_and_removed_witness:
  "ResourceControllerV2API (exMeta (\<lambda>n. notFound)) = None
   \<and> GetResourceInstance (exMeta (\<lambda>n. notFound)) (Id exData) exSession
       = ((None, Some 404, Some ''not found''), \<lparr>log = [CallGet ''i-1''], gets = 1\<rparr>)
   \<and> resourceIBMResourceInstanceExists (exMeta (\<lambda>n. notFound)) exData exSession
       = Inr ((False, None), exData, \<lparr>log = [CallGet ''i-1''], gets = 1\<rparr>)
   \<and> GetResourceInstance (exMeta (\<lambda>n. found ''pending_reclamation'')) (Id exData) exSession
       = ((Some (exInstance ''pending_reclamation''), Some 200, None),
          \<lparr>log = [CallGet ''i-1''], gets = 1\<rparr>)
   \<and> State (exInstance ''pending_reclamation'') = Some ''pending_reclamation''
   \<and> sublist ''pending_reclamation'' ''pending_reclamation''
   \<and> resourceIBMResourceInstanceExists (exMeta (\<lambda>n. found ''pending_reclamation'')) exData exSession
       = Inr ((False, None), exData\<lparr>Id := []\<rparr>, \<lparr>log = [CallGet ''i-1''], gets = 1\<rparr>)"
proof -
  have c: "ResourceControllerV2API (exMeta answers) = None" for answers
    by (simp add: exMeta_def)
  have g1: "GetResourceInstance (exMeta (\<lambda>n. notFound)) (Id exData) exSession
       = ((None, Some 404, Some ''not found''), \<lparr>log = [CallGet ''i-1''], gets = 1\<rparr>)"
    by (simp add: ex_defs)
  have g2: "GetResourceInstance (exMeta (\<lambda>n. found ''pending_reclamation'')) (Id exData) exSession
       = ((Some (exInstance ''pending_reclamation''), Some 200, None),
          \<lparr>log = [CallGet ''i-1''], gets = 1\<rparr>)"
    by (simp add: exMeta_def exData_def exSession_def found_def GetResourceInstance_def)
  have st: "State (exInstance ''pending_reclamation'') = Some ''pending_reclamation''"
    by (simp add: exInstance_def)
  have sub: "sublist ''pending_reclamation'' ''pending_reclamation''"
    by (rule sublist_order.order_refl)
  have e1: "resourceIBMResourceInstanceExists (exMeta (\<lambda>n. notFound)) exData exSession
       = Inr ((False, None), exData, \<lparr>log = [CallGet ''i-1''], gets = 1\<rparr>)"
    using exists_404_and_removed [OF c g1, THEN conjunct1] by simp
  have e2: "resourceIBMResourceInstanceExists (exMeta (\<lambda>n. found ''pending_reclamation'')) exData exSession
       = Inr ((False, None), exData\<lparr>Id := []\<rparr>, \<lparr>log = [CallGet ''i-1''], gets = 1\<rparr>)"
    using exists_404_and_removed [OF c g2, THEN conjunct2, THEN conjunct1] st sub by blast
  from c g1 e1 g2 st sub e2 show ?thesis
    by (intro conjI)
qed


theorem delete_recursive_410_poll_witness:
  "ResourceControllerV2API ((exMeta (\<lambda>n. found ''active''))
       \<lparr>DeleteResourceInstance_answer := (\<lambda>opts. (Some 410, Some ''gone''))\<rparr>) = None
   \<and> DeleteResourceInstance_answer ((exMeta (\<lambda>n. found ''active''))
       \<lparr>DeleteResourceInstance_answer := (\<lambda>opts. (Some 410, Some ''gone''))\<rparr>)
         \<lparr>do_ID = Id exData, Recursive = True\<rparr> = (Some 410, Some ''gone'')
   \<and> resourceIBMResourceInstanceDelete
       ((exMeta (\<lambda>n. found ''active''))\<lparr>DeleteResourceInstance_answer := (\<lambda>opts. (Some 410, Some ''gone''))\<rparr>)
       exData exSession
       = Inr (None, exData, \<lparr>log = [CallDelete \<lparr>do_ID = ''i-1'', Recursive = True\<rparr>], gets = 0\<rparr>)
   \<and> ResourceControllerV2API (exMeta (\<lambda>n. if n = 0 then found ''active'' else found ''removed'')) = None
   \<and> DeleteResourceInstance_answer (exMeta (\<lambda>n. if n = 0 then found ''active'' else found ''removed''))
         \<lparr>do_ID = Id exData, Recursive = True\<rparr> = (Some 204, None)
   \<and> resourceIBMResourceInstanceDelete
       (exMeta (\<lambda>n. if n = 0 then found ''active'' else found ''removed'')) exData exSession
       = Inr (None, exData\<lparr>Id := []\<rparr>,
              \<lparr>log = [CallDelete \<lparr>do_ID = ''i-1'', Recursive = True\<rparr>, CallGet ''i-1'', CallGet ''i-1''],
               gets = 2\<rparr>)"
proof -
  let ?gone = "(exMeta (\<lambda>n. found ''active''))
       \<lparr>DeleteResourceInstance_answer := (\<lambda>opts. (Some 410, Some ''gone''))\<rparr>"
  let ?live = "exMeta (\<lambda>n. if n = 0 then found ''active'' else found ''removed'')"
  let ?s1 = "\<lparr>log = [CallDelete \<lparr>do_ID = ''i-1'', Recursive = True\<rparr>], gets = 0\<rparr>"
  have c1: "ResourceControllerV2API ?gone = None"
    by (simp add: exMeta_def)
  have a1: "DeleteResourceInstance_answer ?gone \<lparr>do_ID = Id exData, Recursive = True\<rparr>
      = (Some 410, Some ''gone'')"
    by simp
  have s1: "?s1 = exSession\<lparr>log := log exSession @ [CallDelete \<lparr>do_ID = Id exData, Recursive = True\<rparr>]\<rparr>"
    by (simp add: exSession_def exData_def)
  have c2: "ResourceControllerV2API ?live = None"
    by (simp add: exMeta_def)
  have a2: "DeleteResourceInstance_answer ?live \<lparr>do_ID = Id exData, Recursive = True\<rparr>
      = (Some 204, None)"
    by (simp add: exMeta_def)
  have w: "waitForResourceInstanceDelete ?live exData ?s1
      = (Inr (Inr (Some (exInstance ''removed''))),
         \<lparr>log = [CallDelete \<lparr>do_ID = ''i-1'', Recursive = True\<rparr>, CallGet ''i-1'', CallGet ''i-1''],
               gets = 2\<rparr>)"
    by (simp add: ex_defs refreshDelete_def deleteStateConf_def status_defs
      waitForResourceInstanceDelete_def WaitForState_def numeral_3_eq_3)
  have d1: "resourceIBMResourceInstanceDelete ?gone exData exSession = Inr (None, exData, ?s1)"
    using delete_recursive_410_poll [OF c1 a1 s1, THEN conjunct1] by simp
  have d2: "resourceIBMResourceInstanceDelete ?live exData exSession
       = Inr (None, exData\<lparr>Id := []\<rparr>,
              \<lparr>log = [CallDelete \<lparr>do_ID = ''i-1'', Recursive = True\<rparr>, CallGet ''i-1'', CallGet ''i-1''],
               gets = 2\<rparr>)"
    using delete_recursive_410_poll [OF c2 a2 s1, THEN conjunct2, THEN conjunct2, THEN conjunct1]
    by (simp add: w)
  from c1 a1 d1 c2 a2 d2 show ?thesis
    by (intro conjI)
qed

section \<open>Properties of Create, Update and Read\<close>

lemma GetResourceInstance_FindByName:
  "GetResourceInstance (m\<lparr>FindByName := f\<rparr>) = GetResourceInstance m"
  by (simp add: fun_eq_iff Let_def GetResourceInstance_def)

lemma refreshCreate_FindByName: "refreshCreate (m\<lparr>FindByName := f\<rparr>) = refreshCreate m"
  by (simp add: fun_eq_iff Let_def refreshCreate_def GetResourceInstance_FindByName)

lemma refreshUpdate_FindByName: "refreshUpdate (m\<lparr>FindByName := f\<rparr>) = refreshUpdate m"
  by (simp add: fun_eq_iff Let_def refreshUpdate_def GetResourceInstance_FindByName)

lemma waitForResourceInstanceCreate_FindByName:
  "waitForResourceInstanceCreate (m\<lparr>FindByName := f\<rparr>) = waitForResourceInstanceCreate m"
  by (simp add: fun_eq_iff Let_def waitForResourceInstanceCreate_def createStateConf_def refreshCreate_FindByName
      cong: option.case_cong)

lemma waitForResourceInstanceUpdate_FindByName:
  "waitForResourceInstanceUpdate (m\<lparr>FindByName := f\<rparr>) = waitForResourceInstanceUpdate m"
  by (simp add: fun_eq_iff Let_def waitForResourceInstanceUpdate_def updateStateConf_def refreshUpdate_FindByName
      cong: option.case_cong)

lemma Read_FindByName:
  "resourceIBMResourceInstanceRead (m\<lparr>FindByName := f\<rparr>) = resourceIBMResourceInstanceRead m"
  by (simp add: fun_eq_iff Let_def resourceIBMResourceInstanceRead_def readFirst_def GetResourceInstance_FindByName
      cong: option.case_cong prod.case_cong if_cong)

lemma createSubmit_FindByName: "createSubmit (m\<lparr>FindByName := f\<rparr>) = createSubmit m"
  by (simp add: fun_eq_iff Let_def createSubmit_def CreateResourceInstance_def
      waitForResourceInstanceCreate_FindByName Read_FindByName
      cong: option.case_cong prod.case_cong sum.case_cong if_cong)

lemma updateSubmit_FindByName: "updateSubmit (m\<lparr>FindByName := f\<rparr>) = updateSubmit m"
  by (simp add: fun_eq_iff Let_def updateSubmit_def UpdateResourceInstance_def
      waitForResourceInstanceUpdate_FindByName Read_FindByName GetResourceInstance_FindByName
      cong: option.case_cong prod.case_cong sum.case_cong if_cong)

lemma updateParameters_FindByName: "updateParameters (m\<lparr>FindByName := f\<rparr>) = updateParameters m"
  by (simp add: fun_eq_iff Let_def updateParameters_def GetResourceInstance_FindByName
      cong: option.case_cong prod.case_cong if_cong)

lemma create_first_offering:
  assumes "FindByName m (strs d ''service'') = (serviceOff0 # rest, None)"
  shows "resourceIBMResourceInstanceCreate m d s =
         resourceIBMResourceInstanceCreate (m\<lparr>FindByName := (\<lambda>name. ([serviceOff0], None))\<rparr>) d s"
  using assms by (simp add: Let_def resourceIBMResourceInstanceCreate_def createSubmit_FindByName
      cong: option.case_cong prod.case_cong sum.case_cong ServiceMetadata.case_cong list.case_cong if_cong)

lemma update_first_offering:
  assumes "FindByName m (strs d ''service'') = (serviceOff0 # rest, None)"
  shows "resourceIBMResourceInstanceUpdate m d s =
         resourceIBMResourceInstanceUpdate (m\<lparr>FindByName := (\<lambda>name. ([serviceOff0], None))\<rparr>) d s"
  using assms by (simp add: Let_def resourceIBMResourceInstanceUpdate_def updatePlan_def
      updateSubmit_FindByName updateParameters_FindByName
      cong: option.case_cong prod.case_cong sum.case_cong list.case_cong if_cong)

text \<open>
  C10. With both clients at hand, a lookup by name that returns no error and
  an empty list makes Create panic at \<open>serviceOff[0]\<close>, and makes Update panic
  there whenever the plan changed; so a Create or Update that goes on after
  a successful lookup had a non-empty list. Of a non-empty list only the
  first element is used: the rest of the list changes nothing.
\<close>

theorem create_update_first_offering_unguarded:
  "(ResourceControllerV2API m = None \<and> ResourceCatalogAPI m = None
      \<and> FindByName m (strs d ''service'') = ([], None) \<longrightarrow>
      resourceIBMResourceInstanceCreate m d s = Inl IndexOutOfRange)
   \<and> (ResourceControllerV2API m = None \<and> HasChange d ''plan'' \<and> ResourceCatalogAPI m = None
      \<and> FindByName m (strs d ''service'') = ([], None) \<longrightarrow>
      resourceIBMResourceInstanceUpdate m d s = Inl IndexOutOfRange)
   \<and> (\<forall>serviceOff. ResourceControllerV2API m = None \<and> ResourceCatalogAPI m = None
      \<and> FindByName m (strs d ''service'') = (serviceOff, None)
      \<and> resourceIBMResourceInstanceCreate m d s \<noteq> Inl IndexOutOfRange \<longrightarrow> serviceOff \<noteq> [])
   \<and> (\<forall>serviceOff. ResourceControllerV2API m = None \<and> HasChange d ''plan''
      \<and> ResourceCatalogAPI m = None
      \<and> FindByName m (strs d ''service'') = (serviceOff, None)
      \<and> resourceIBMResourceInstanceUpdate m d s \<noteq> Inl IndexOutOfRange \<longrightarrow> serviceOff \<noteq> [])
   \<and> (\<forall>serviceOff0 rest. FindByName m (strs d ''service'') = (serviceOff0 # rest, None) \<longrightarrow>
        resourceIBMResourceInstanceCreate m d s =
          resourceIBMResourceInstanceCreate (m\<lparr>FindByName := (\<lambda>name. ([serviceOff0], None))\<rparr>) d s
        \<and> resourceIBMResourceInstanceUpdate m d s =
          resourceIBMResourceInstanceUpdate (m\<lparr>FindByName := (\<lambda>name. ([serviceOff0], None))\<rparr>) d s)"
proof -
  have create: "resourceIBMResourceInstanceCreate m d s = Inl IndexOutOfRange"
    if "ResourceControllerV2API m = None" "ResourceCatalogAPI m = None"
       "FindByName m (strs d ''service'') = ([], None)"
    using that by (simp add: resourceIBMResourceInstanceCreate_def)
  have update: "resourceIBMResourceInstanceUpdate m d s = Inl IndexOutOfRange"
    if "ResourceControllerV2API m = None" "HasChange d ''plan''" "ResourceCatalogAPI m = None"
       "FindByName m (strs d ''service'') = ([], None)"
    using that by (simp add: resourceIBMResourceInstanceUpdate_def updatePlan_def)
  have first: "resourceIBMResourceInstanceCreate m d s =
          resourceIBMResourceInstanceCreate (m\<lparr>FindByName := (\<lambda>name. ([serviceOff0], None))\<rparr>) d s
        \<and> resourceIBMResourceInstanceUpdate m d s =
          resourceIBMResourceInstanceUpdate (m\<lparr>FindByName := (\<lambda>name. ([serviceOff0], None))\<rparr>) d s"
    if "FindByName m (strs d ''service'') = (serviceOff0 # rest, None)" for serviceOff0 rest
    using create_first_offering [OF that] update_first_offering [OF that] by simp
  from create update first show ?thesis
    by blast
qed

text \<open>
  Create on the example: the offering is found, the deployment at \<open>us-south\<close> is
  chosen, the instance goes from provisioning to active at the second fetch,
  and Read (the third fetch) fills the fields.
\<close>

lemma create_scenario:
  "\<exists>d' s'. resourceIBMResourceInstanceCreate
       (exMeta (\<lambda>n. if n = 0 then found ''provisioning'' else found ''active'')) exData exSession
       = Inr (None, d', s')
     \<and> Id d' = ''i-1'' \<and> attrs d' ''location'' = Some (AString ''us-south'')
     \<and> attrs d' ''plan'' = Some (AString ''standard'') \<and> gets s' = 3"
  by (simp add: resourceIBMResourceInstanceCreate_def ex_defs exService_def filterDeployments_def
       createSubmit_def CreateResourceInstance_def waitForResourceInstanceCreate_def
       WaitForState_def createStateConf_def refreshCreate_def status_defs numeral_3_eq_3
       resourceIBMResourceInstanceRead_def readTimestamps_def readRest_def readFirst_def
       createParams_def dSet_def Let_def)

theorem create_update_first_offering_unguarded_witness:
  "ResourceControllerV2API exMetaNoOffering = None \<and> ResourceCatalogAPI exMetaNoOffering = None
   \<and> FindByName exMetaNoOffering (strs exData ''service'') = ([], None)
   \<and> resourceIBMResourceInstanceCreate exMetaNoOffering exData exSession = Inl IndexOutOfRange
   \<and> HasChange (exData\<lparr>HasChange := (\<lambda>key. key = ''plan'')\<rparr>) ''plan''
   \<and> resourceIBMResourceInstanceUpdate exMetaNoOffering
        (exData\<lparr>HasChange := (\<lambda>key. key = ''plan'')\<rparr>) exSession = Inl IndexOutOfRange
   \<and> FindByName ((exMeta (\<lambda>n. found ''active''))\<lparr>FindByName := (\<lambda>name. ([exService, exService], None))\<rparr>)
        (strs exData ''service'') = (exService # [exService], None)
   \<and> resourceIBMResourceInstanceCreate
        ((exMeta (\<lambda>n. found ''active''))\<lparr>FindByName := (\<lambda>name. ([exService, exService], None))\<rparr>)
        exData exSession
       = resourceIBMResourceInstanceCreate
          ((exMeta (\<lambda>n. found ''active''))\<lparr>FindByName := (\<lambda>name. ([exService], None))\<rparr>)
          exData exSession"
proof -
  have c1: "ResourceControllerV2API exMetaNoOffering = None"
    by (simp add: exMetaNoOffering_def exMeta_def)
  have c2: "ResourceCatalogAPI exMetaNoOffering = None"
    by (simp add: exMetaNoOffering_def exMeta_def)
  have f: "FindByName exMetaNoOffering name = ([], None)" for name
    by (simp add: exMetaNoOffering_def)
  have h: "HasChange (exData\<lparr>HasChange := (\<lambda>key. key = ''plan'')\<rparr>) ''plan''"
    by simp
  have s: "strs (exData\<lparr>HasChange := (\<lambda>key. key = ''plan'')\<rparr>) = strs exData"
    by simp
  have t1: "resourceIBMResourceInstanceCreate exMetaNoOffering exData exSession = Inl IndexOutOfRange"
    using create_update_first_offering_unguarded
      [of exMetaNoOffering exData exSession, THEN conjunct1] c1 c2 f by blast
  have t2: "resourceIBMResourceInstanceUpdate exMetaNoOffering
        (exData\<lparr>HasChange := (\<lambda>key. key = ''plan'')\<rparr>) exSession = Inl IndexOutOfRange"
    using create_update_first_offering_unguarded
      [of exMetaNoOffering "exData\<lparr>HasChange := (\<lambda>key. key = ''plan'')\<rparr>" exSession,
       THEN conjunct2, THEN conjunct1] c1 c2 f h by blast
  have f2: "FindByName ((exMeta (\<lambda>n. found ''active''))\<lparr>FindByName := (\<lambda>name. ([exService, exService], None))\<rparr>)
        (strs exData ''service'') = (exService # [exService], None)"
    by simp
  have t3: "resourceIBMResourceInstanceCreate
        ((exMeta (\<lambda>n. found ''active''))\<lparr>FindByName := (\<lambda>name. ([exService, exService], None))\<rparr>)
        exData exSession
       = resourceIBMResourceInstanceCreate
          ((exMeta (\<lambda>n. found ''active''))\<lparr>FindByName := (\<lambda>name. ([exService], None))\<rparr>)
          exData exSession"
    using create_update_first_offering_unguarded
      [of "(exMeta (\<lambda>n. found ''active''))\<lparr>FindByName := (\<lambda>name. ([exService, exService], None))\<rparr>"
          exData exSession] f2
    by simp
  from c1 c2 f h t1 t2 f2 t3 show ?thesis
    by (intro conjI)
qed

text \<open>
  The test before \<open>deleted_at\<close> is on \<open>ScheduledReclaimAt\<close>: with a reclaim date
  and no delete date, \<open>instance.DeletedAt.String()\<close> is called on \<open>nil\<close>.
\<close>

lemma readTimestamps_deleted_at:
  assumes "ScheduledReclaimAt i \<noteq> None" and "DeletedAt i = None"
  shows "readTimestamps i d = Inl NilDereference"
  using assms by (simp add: readTimestamps_def Let_def split: option.splits)

text \<open>
  C2. The claim is that Read formats each timestamp after testing that very
  timestamp, and so never dereferences an absent one. On a fetched instance
  with \<open>ScheduledReclaimAt\<close> set and \<open>DeletedAt\<close> absent, Read panics with a nil
  dereference; on one with \<open>DeletedAt\<close> set and \<open>ScheduledReclaimAt\<close> absent, Read
  returns without writing \<open>deleted_at\<close>.
\<close>

theorem read_deleted_at_unguarded:
  "resourceIBMResourceInstanceRead
     (exMeta (\<lambda>n. (Some ((exInstance ''active'')\<lparr>ScheduledReclaimAt := Some ''2021-02-01T00:00:00.000Z''\<rparr>),
                    Some 200, None)))
     exData exSession = Inl NilDereference
   \<and> (\<exists>d' s'. resourceIBMResourceInstanceRead
         (exMeta (\<lambda>n. (Some ((exInstance ''removed'')\<lparr>DeletedAt := Some ''2021-03-01T00:00:00.000Z''\<rparr>),
                        Some 200, None)))
         exData exSession = Inr (None, d', s')
       \<and> attrs d' ''deleted_at'' = None \<and> attrs d' ''created_at'' \<noteq> None)"
  by (simp add: resourceIBMResourceInstanceRead_def ex_defs readTimestamps_def readRest_def
      readFirst_def dSet_def Let_def)

section \<open>Properties of the parameter payload\<close>

lemma HasPrefix_bracket: "HasPrefix v [c] \<longleftrightarrow> v \<noteq> [] \<and> hd v = c"
  by (cases v) (auto simp: HasPrefix_def)

lemma HasSuffix_bracket: "HasSuffix v [c] \<longleftrightarrow> v \<noteq> [] \<and> last v = c"
proof (cases v rule: rev_cases)
  case Nil
  then show ?thesis by (simp add: HasSuffix_def)
next
  case (snoc ys y)
  then show ?thesis by (auto simp: HasSuffix_def)
qed

lemma Trim_dropWhile:
  "Trim a [c] = rev (dropWhile (\<lambda>x. x = c) (rev (dropWhile (\<lambda>x. x = c) a)))"
  by (simp add: Trim_def TrimRight_dropWhile TrimLeft_dropWhile)

lemma coerceValue_cases:
  "coerceValue v =
     (if v = ''true'' then PBool True
      else if v = ''false'' then PBool False
      else if v \<noteq> [] \<and> hd v = CHR ''['' \<and> last v = CHR '']''
        then PList (map (\<lambda>a. rev (dropWhile (\<lambda>c. c = CHR 0x22) (rev (dropWhile (\<lambda>c. c = CHR 0x22) a))))
                     (Split (rev (dropWhile (\<lambda>c. c = CHR '']'') (rev (dropWhile (\<lambda>c. c = CHR ''['') v))))
                        (CHR '','')))
      else PStr v)"
  by (simp add: coerceValue_def ParseBool_def HasPrefix_bracket HasSuffix_bracket Let_def
      foldl_snoc_map Trim_dropWhile TrimRight_dropWhile TrimLeft_dropWhile)

lemma coerceParameters_map_of:
  "distinct (map fst temp) \<Longrightarrow>
   coerceParameters params temp k =
     (case map_of temp k of None \<Rightarrow> params k | Some v \<Rightarrow> Some (coerceValue v))"
proof (induction temp arbitrary: params)
  case Nil
  show ?case by simp
next
  case (Cons kv temp)
  obtain k' v' where kv: "kv = (k', v')" by (cases kv)
  with Cons.prems have notin: "k' \<notin> fst ` set temp" and dist: "distinct (map fst temp)"
    by auto
  from notin have none: "map_of temp k' = None"
    by (simp add: map_of_eq_None_iff)
  have "coerceParameters params (kv # temp) k
      = coerceParameters (params(k' \<mapsto> coerceValue v')) temp k"
    by (simp add: kv)
  also have "\<dots> = (case map_of temp k of
                     None \<Rightarrow> (params(k' \<mapsto> coerceValue v')) k
                   | Some v \<Rightarrow> Some (coerceValue v))"
    by (rule Cons.IH [OF dist])
  also have "\<dots> = (case map_of (kv # temp) k of
                     None \<Rightarrow> params k
                   | Some v \<Rightarrow> Some (coerceValue v))"
    using none by (auto simp: kv split: option.splits)
  finally show ?case .
qed

text \<open>
  C4, amended. The loop over the \<open>parameters\<close> map (a Go map: each key once)
  leaves every other key of the payload as it was and sets every key of
  the map to the coercion of its value: the boolean for \<open>true\<close> or \<open>false\<close>;
  else, for a value that starts with an opening square bracket and ends with a
  closing one, the list obtained by dropping every leading opening bracket and
  every trailing closing bracket, splitting on the comma and dropping every
  leading and trailing double quote of each piece; else the string unchanged.
\<close>

theorem coerceParameters_entries:
  assumes "distinct (map fst temp)"
  shows "coerceParameters params temp k =
     (case map_of temp k of
        None \<Rightarrow> params k
      | Some v \<Rightarrow> Some
         (if v = ''true'' then PBool True
          else if v = ''false'' then PBool False
          else if v \<noteq> [] \<and> hd v = CHR ''['' \<and> last v = CHR '']''
            then PList (map (\<lambda>a. rev (dropWhile (\<lambda>c. c = CHR 0x22) (rev (dropWhile (\<lambda>c. c = CHR 0x22) a))))
                         (Split (rev (dropWhile (\<lambda>c. c = CHR '']'') (rev (dropWhile (\<lambda>c. c = CHR ''['') v))))
                            (CHR '','')))
          else PStr v))"
  unfolding coerceParameters_map_of [OF assms] coerceValue_cases ..

theorem coerceParameters_entries_witness:
  "distinct (map fst [(''flag'', ''true''), (''list'', ''[[1,2],[3]]''), (''name'', ''x'')])
   \<and> coerceParameters Map.empty [(''flag'', ''true''), (''list'', ''[[1,2],[3]]''), (''name'', ''x'')] ''list''
       = Some (PList [''1'', ''2]'', ''[3''])
   \<and> coerceParameters Map.empty [(''flag'', ''true''), (''list'', ''[[1,2],[3]]''), (''name'', ''x'')] ''flag''
       = Some (PBool True)
   \<and> coerceParameters Map.empty [(''flag'', ''true''), (''list'', ''[[1,2],[3]]''), (''name'', ''x'')] ''name''
       = Some (PStr ''x'')
   \<and> coerceParameters Map.empty [(''flag'', ''true''), (''list'', ''[[1,2],[3]]''), (''name'', ''x'')] ''other''
       = None"
proof -
  have d: "distinct (map fst [(''flag'', ''true''), (''list'', ''[[1,2],[3]]''), (''name'', ''x'')])"
    by simp
  show ?thesis
    using d coerceParameters_entries [OF d, of Map.empty "''list''"]
      coerceParameters_entries [OF d, of Map.empty "''flag''"]
      coerceParameters_entries [OF d, of Map.empty "''name''"]
      coerceParameters_entries [OF d, of Map.empty "''other''"]
    by simp
qed

text \<open>
  C4 as stated, with the brackets being the pair that encloses the value,
  fails on a nested list: the code strips both leading brackets, so the first
  element loses its own.
\<close>

theorem coerce_strips_every_bracket:
  "coerceValue ''[[1,2],[3]]'' = PList [''1'', ''2]'', ''[3'']
   \<and> spec_coerceValue ''[[1,2],[3]]'' = PList [''[1'', ''2]'', ''[3]'']
   \<and> coerceValue ''[[1,2],[3]]'' \<noteq> spec_coerceValue ''[[1,2],[3]]''"
  by (simp add: coerceValue_def spec_coerceValue_def HasPrefix_def HasSuffix_def TrimRight_def Trim_def)

text \<open>
  C5. \<open>updateParameters\<close> gives the payload of the update request. The schema
  (lines 121 to 127) makes \<open>service_endpoints\<close> optional and computed and admits
  only \<open>public\<close>, \<open>private\<close> and \<open>public-and-private\<close> for it, so a changed value
  is not empty: that is the first hypothesis. Then every payload submitted
  holds, under \<open>service-endpoints\<close>, the top-level value when that is not empty,
  whatever the generic map holds under that key; and when the top-level
  field is empty, the payload was built after a successful fetch, and it
  holds the value of the fetched instance's \<open>service-endpoints\<close> parameter when
  the instance has one. A payload is submitted when the parameters changed
  and the fetch succeeded, or when only \<open>service_endpoints\<close> changed; when the
  parameters did not change nothing is fetched.
\<close>

theorem update_service_endpoints_payload:
  assumes "HasChange d ''service_endpoints'' \<Longrightarrow> strs d ''service_endpoints'' \<noteq> []"
    and "fst (GetResourceInstance m (Id d) s) = (instance, resp, err)"
  shows
   "(\<forall>p. fst (updateParameters m d s) = Inr (Inr (Some p)) \<longrightarrow>
        (strs d ''service_endpoints'' \<noteq> [] \<longrightarrow>
           p ''service-endpoints'' = Some (PStr (strs d ''service_endpoints'')))
        \<and> (strs d ''service_endpoints'' = [] \<longrightarrow>
             HasChange d ''parameters'' \<and> err = None
             \<and> (\<forall>i v. instance = Some i \<and> Parameters i ''service-endpoints'' = Some v \<longrightarrow>
                    p ''service-endpoints'' = Some v)))
    \<and> (strs d ''service_endpoints'' \<noteq> [] \<and> HasChange d ''parameters'' \<and> err = None \<longrightarrow>
         (\<exists>p. fst (updateParameters m d s) = Inr (Inr (Some p))))
    \<and> (strs d ''service_endpoints'' \<noteq> [] \<and> \<not> HasChange d ''parameters''
         \<and> HasChange d ''service_endpoints'' \<longrightarrow>
         updateParameters m d s =
           (Inr (Inr (Some [''service-endpoints'' \<mapsto> PStr (strs d ''service_endpoints'')])), s))
    \<and> (\<forall>i v. strs d ''service_endpoints'' = [] \<and> HasChange d ''parameters'' \<and> err = None
           \<and> instance = Some i \<and> Parameters i ''service-endpoints'' = Some v \<longrightarrow>
         (\<exists>p. fst (updateParameters m d s) = Inr (Inr (Some p))
              \<and> p ''service-endpoints'' = Some v))
    \<and> (\<not> HasChange d ''parameters'' \<longrightarrow> snd (updateParameters m d s) = s)"
proof -
  obtain s1 where g: "GetResourceInstance m (Id d) s = ((instance, resp, err), s1)"
    using assms(2) by (cases "GetResourceInstance m (Id d) s") auto
  have every: "\<forall>p. fst (updateParameters m d s) = Inr (Inr (Some p)) \<longrightarrow>
        (strs d ''service_endpoints'' \<noteq> [] \<longrightarrow>
           p ''service-endpoints'' = Some (PStr (strs d ''service_endpoints'')))
        \<and> (strs d ''service_endpoints'' = [] \<longrightarrow>
             HasChange d ''parameters'' \<and> err = None
             \<and> (\<forall>i v. instance = Some i \<and> Parameters i ''service-endpoints'' = Some v \<longrightarrow>
                    p ''service-endpoints'' = Some v))"
    using assms(1) g
    by (auto simp: updateParameters_def Let_def split: option.splits if_splits)
  have submitted: "strs d ''service_endpoints'' \<noteq> [] \<and> HasChange d ''parameters'' \<and> err = None \<longrightarrow>
         (\<exists>p. fst (updateParameters m d s) = Inr (Inr (Some p)))"
    using g by (auto simp: updateParameters_def Let_def split: option.splits if_splits)
  have only: "strs d ''service_endpoints'' \<noteq> [] \<and> \<not> HasChange d ''parameters''
         \<and> HasChange d ''service_endpoints'' \<longrightarrow>
         updateParameters m d s =
           (Inr (Inr (Some [''service-endpoints'' \<mapsto> PStr (strs d ''service_endpoints'')])), s)"
    by (auto simp: updateParameters_def Let_def)
  have carried: "\<forall>i v. strs d ''service_endpoints'' = [] \<and> HasChange d ''parameters'' \<and> err = None
           \<and> instance = Some i \<and> Parameters i ''service-endpoints'' = Some v \<longrightarrow>
         (\<exists>p. fst (updateParameters m d s) = Inr (Inr (Some p))
              \<and> p ''service-endpoints'' = Some v)"
    using g by (auto simp: updateParameters_def Let_def split: option.splits if_splits)
  have nofetch: "\<not> HasChange d ''parameters'' \<longrightarrow> snd (updateParameters m d s) = s"
    by (auto simp: updateParameters_def Let_def)
  from every submitted only carried nofetch show ?thesis
    by blast
qed

text \<open>Update sends that payload as the \<open>Parameters\<close> of its request.\<close>

lemma Update_submits:
  assumes "ResourceControllerV2API m = None"
    and "updatePlan m d = Inr (Inr resourcePlanID)"
    and "updateParameters m d s = (Inr (Inr params), s1)"
  shows "resourceIBMResourceInstanceUpdate m d s =
     updateSubmit m d
       \<lparr>uo_ID = Id d, uo_Name = (if HasChange d ''name'' then Some (strs d ''name'') else None),
        uo_ResourcePlanID = resourcePlanID, uo_Parameters = params\<rparr> s1"
  using assms by (simp add: resourceIBMResourceInstanceUpdate_def)

theorem update_service_endpoints_payload_witness:
  "HasChange (exData\<lparr>strs := (strs exData)(''service_endpoints'' := ''public''),
                    parameters := [(''service-endpoints'', ''private''), (''flag'', ''true'')],
                    HasChange := (\<lambda>key. key = ''parameters'' \<or> key = ''service_endpoints'')\<rparr>)
      ''service_endpoints''
   \<and> strs (exData\<lparr>strs := (strs exData)(''service_endpoints'' := ''public''),
                    parameters := [(''service-endpoints'', ''private''), (''flag'', ''true'')],
                    HasChange := (\<lambda>key. key = ''parameters'' \<or> key = ''service_endpoints'')\<rparr>)
      ''service_endpoints'' = ''public''
   \<and> fst (GetResourceInstance (exMeta (\<lambda>n. (Some exLive, Some 200, None)))
         (Id (exData\<lparr>strs := (strs exData)(''service_endpoints'' := ''public''),
                    parameters := [(''service-endpoints'', ''private''), (''flag'', ''true'')],
                    HasChange := (\<lambda>key. key = ''parameters'' \<or> key = ''service_endpoints'')\<rparr>))
         exSession)
     = (Some exLive, Some 200, None)
   \<and> (\<exists>p. fst (updateParameters (exMeta (\<lambda>n. (Some exLive, Some 200, None)))
              (exData\<lparr>strs := (strs exData)(''service_endpoints'' := ''public''),
                    parameters := [(''service-endpoints'', ''private''), (''flag'', ''true'')],
                    HasChange := (\<lambda>key. key = ''parameters'' \<or> key = ''service_endpoints'')\<rparr>)
              exSession) = Inr (Inr (Some p))
          \<and> p ''service-endpoints'' = Some (PStr ''public''))
   \<and> \<not> HasChange (exData\<lparr>parameters := [(''service-endpoints'', ''public-and-private'')],
                    HasChange := (\<lambda>key. key = ''parameters'')\<rparr>) ''service_endpoints''
   \<and> strs (exData\<lparr>parameters := [(''service-endpoints'', ''public-and-private'')],
                    HasChange := (\<lambda>key. key = ''parameters'')\<rparr>) ''service_endpoints'' = []
   \<and> Parameters exLive ''service-endpoints'' = Some (PStr ''private'')
   \<and> (\<exists>p. fst (updateParameters (exMeta (\<lambda>n. (Some exLive, Some 200, None)))
              (exData\<lparr>parameters := [(''service-endpoints'', ''public-and-private'')],
                    HasChange := (\<lambda>key. key = ''parameters'')\<rparr>) exSession) = Inr (Inr (Some p))
          \<and> p ''service-endpoints'' = Some (PStr ''private''))"
proof -
  let ?m = "exMeta (\<lambda>n. (Some exLive, Some 200, None))"
  let ?both = "exData\<lparr>strs := (strs exData)(''service_endpoints'' := ''public''),
                    parameters := [(''service-endpoints'', ''private''), (''flag'', ''true'')],
                    HasChange := (\<lambda>key. key = ''parameters'' \<or> key = ''service_endpoints'')\<rparr>"
  let ?unset = "exData\<lparr>parameters := [(''service-endpoints'', ''public-and-private'')],
                    HasChange := (\<lambda>key. key = ''parameters'')\<rparr>"
  have g: "fst (GetResourceInstance ?m (Id d) exSession) = (Some exLive, Some 200, None)" for d
    by (simp add: GetResourceInstance_def exMeta_def)
  have b0: "HasChange ?both ''service_endpoints''"
    by simp
  have b1: "strs ?both ''service_endpoints'' = ''public''"
    by simp
  have b2: "HasChange ?both ''parameters''"
    by simp
  have bs: "HasChange ?both ''service_endpoints'' \<Longrightarrow> strs ?both ''service_endpoints'' \<noteq> []"
    by simp
  have u0: "\<not> HasChange ?unset ''service_endpoints''"
    by simp
  have u1: "strs ?unset ''service_endpoints'' = []"
    by (simp add: exData_def)
  have u2: "HasChange ?unset ''parameters''"
    by simp
  have us: "HasChange ?unset ''service_endpoints'' \<Longrightarrow> strs ?unset ''service_endpoints'' \<noteq> []"
    by simp
  have live: "Parameters exLive ''service-endpoints'' = Some (PStr ''private'')"
    by (simp add: exLive_def)
  from update_service_endpoints_payload [OF bs g [of ?both], THEN conjunct2, THEN conjunct1] b1 b2
  obtain p where p: "fst (updateParameters ?m ?both exSession) = Inr (Inr (Some p))"
    by auto
  from update_service_endpoints_payload [OF bs g [of ?both], THEN conjunct1] b1 p
  have pv: "p ''service-endpoints'' = Some (PStr ''public'')"
    by auto
  from update_service_endpoints_payload
    [OF us g [of ?unset], THEN conjunct2, THEN conjunct2, THEN conjunct2, THEN conjunct1] u1 u2 live
  obtain q where q: "fst (updateParameters ?m ?unset exSession) = Inr (Inr (Some q))"
    by blast
  from update_service_endpoints_payload [OF us g [of ?unset], THEN conjunct1] u1 q live
  have qv: "q ''service-endpoints'' = Some (PStr ''private'')"
    by blast
  from b0 b1 g [of ?both] p pv u0 u1 live q qv show ?thesis
    by blast
qed

end
